theory Spec2Isabelle
  imports Complex_Main
begin

section \<open>Payment service: data model\<close>

text \<open>
  The enums of \<^verbatim>\<open>models/payment.py\<close>. The database columns hold the
  \<^verbatim>\<open>.value\<close> string of a member and \<^verbatim>\<open>_to_domain\<close> maps it back
  through the enum's constructor; the rows below keep the member itself.
\<close>

datatype PaymentMethod = CREDIT_CARD | DEBIT_CARD | PAYPAL | STRIPE

datatype PaymentStatus =
  PENDING | PROCESSING | AUTHORIZED | CAPTURED | FAILED | REFUNDED | PARTIALLY_REFUNDED

datatype Currency = USD | EUR | GBP

text \<open>
  Amounts are Python floats in the source. The service only compares them
  (\<^verbatim>\<open>>=\<close>) and copies them; they are rationals here. Timestamps are the
  values \<^verbatim>\<open>datetime.utcnow()\<close> returns, an opaque ordered type.
\<close>

type_synonym amount = rat
type_synonym datetime = nat

text \<open>
  The dictionaries \<^verbatim>\<open>PaymentProcessor\<close> returns, one constructor for each dict
  literal of \<^verbatim>\<open>payment_processor.py\<close>, with the literal's keys as arguments
  (the constant entries \<^verbatim>\<open>"success"\<close>, \<^verbatim>\<open>"status"\<close> and
  \<^verbatim>\<open>"currency"\<close> are fixed by the constructor).
\<close>

datatype gateway_result =
    Authorized string string datetime amount
      \<comment> \<open>payment_intent_id, transaction_id, authorized_at, amount\<close>
  | Captured string string datetime amount
      \<comment> \<open>transaction_id, payment_intent_id, captured_at, amount\<close>
  | RefundedOk string string amount datetime
      \<comment> \<open>refund_id, transaction_id, amount, refunded_at\<close>
  | Voided string
      \<comment> \<open>payment_intent_id\<close>
  | Failure string string bool
      \<comment> \<open>error_code, error_message, whether the dict has a "status" entry\<close>

text \<open>
  The rows of the tables \<^verbatim>\<open>payments\<close> and \<^verbatim>\<open>refunds\<close>
  (\<^verbatim>\<open>database/models.py\<close>). The domain model \<^verbatim>\<open>Payment\<close> has the same
  fields as a payment row, and \<^verbatim>\<open>_to_domain\<close> copies them one by one, so one record
  serves for both. The primary key \<^verbatim>\<open>id\<close> is written \<open>id'\<close>, and the fields
  of a refund row carry the prefix \<open>rf\<close>.
\<close>

record PaymentModel =
  id' :: string
  order_id :: string
  amount :: amount
  currency :: Currency
  payment_method :: PaymentMethod
  status :: PaymentStatus
  transaction_id :: "string option"
  payment_intent_id :: "string option"
  provider_response :: "gateway_result option"
  error_message :: "string option"
  created_at :: datetime
  updated_at :: datetime
  authorized_at :: "datetime option"
  captured_at :: "datetime option"
  refunded_at :: "datetime option"

record RefundModel =
  rf_id :: string
  rf_payment_id :: string
  rf_refund_id :: string
  rf_amount :: amount
  rf_reason :: "string option"
  rf_created_at :: datetime

record ProcessPaymentRequest =
  req_order_id :: string
  req_amount :: amount
  req_currency :: Currency
  req_payment_method :: PaymentMethod
  payment_method_details :: "(string \<times> string) list option"

record RefundRequest =
  rr_transaction_id :: string
  rr_amount :: amount
  rr_reason :: "string option"

record PaymentResponse =
  success :: bool
  resp_transaction_id :: "string option"
  resp_payment_intent_id :: "string option"
  resp_status :: PaymentStatus
  error :: "string option"

record RefundResponse =
  r_success :: bool
  r_refund_id :: "string option"
  r_amount :: amount
  r_error :: "string option"

text \<open>The \<^verbatim>\<open>data\<close> dicts of the three events of \<^verbatim>\<open>event_publisher.py\<close>.\<close>

datatype event_data =
    SuccessfulData string amount Currency PaymentMethod "string option" "string option"
      \<comment> \<open>order_id, amount, currency, payment_method, transaction_id, payment_intent_id\<close>
  | FailedData string amount Currency PaymentMethod string
      \<comment> \<open>order_id, amount, currency, payment_method, error\<close>
  | RefundedData string string amount amount Currency
      \<comment> \<open>order_id, refund_id, amount, original_amount, currency\<close>

record event =
  event_type :: string
  ev_payment_id :: string
  timestamp :: datetime
  data :: event_data

section \<open>The world outside the service\<close>

text \<open>
  Calls that leave the process: the gateway methods of the processor and the
  producer's \<^verbatim>\<open>send\<close>. The log records every attempt, in order.
\<close>

datatype call =
    GwAuthorize amount PaymentMethod
  | GwCapture string amount
  | GwRefund string amount "string option"
  | KafkaSend event

text \<open>
  What the code cannot decide itself is read from an environment, by position:
  the \<open>n\<close>-th \<^verbatim>\<open>uuid.uuid4().hex\<close>, the \<open>n\<close>-th \<^verbatim>\<open>random.random()\<close>
  and \<^verbatim>\<open>random.choice\<close>, the \<open>n\<close>-th \<^verbatim>\<open>datetime.utcnow()\<close>, whether the
  \<open>n\<close>-th round trip of the database session raises (and with which message), whether
  the \<open>n\<close>-th \<^verbatim>\<open>producer.send\<close> raises, and how the interpreter formats an enum
  member inside an f-string.
\<close>

record env =
  uuid4_hex :: "nat \<Rightarrow> string"
  random_random :: "nat \<Rightarrow> rat"
  random_choice :: "nat \<Rightarrow> nat"
  utcnow :: "nat \<Rightarrow> datetime"
  session_fault :: "nat \<Rightarrow> string option"
  send_fault :: "nat \<Rightarrow> string option"
  format_status :: "PaymentStatus \<Rightarrow> string"

record world =
  payments :: "PaymentModel list"
  refunds :: "RefundModel list"
  producer :: bool
  delivered :: "event list"
  calls :: "call list"
  n_uuid :: nat
  n_random :: nat
  n_clock :: nat
  n_session :: nat
  n_send :: nat

subsection \<open>Programs: state passing with exceptions\<close>

text \<open>
  A Python coroutine of the service is a function from the world to an outcome and the
  world it leaves. \<open>Raise e\<close> is an exception whose \<^verbatim>\<open>str(e)\<close> is \<open>e\<close>.
\<close>

datatype 'a outcome = Raise string | Return 'a

type_synonym 'a prog = "world \<Rightarrow> 'a outcome \<times> world"

definition returnP :: "'a \<Rightarrow> 'a prog" where
  "returnP x = (\<lambda>w. (Return x, w))"

definition raiseP :: "string \<Rightarrow> 'a prog" where
  "raiseP e = (\<lambda>w. (Raise e, w))"

definition thenP :: "'a prog \<Rightarrow> ('a \<Rightarrow> 'b prog) \<Rightarrow> 'b prog" where
  "thenP m f = (\<lambda>w. case m w of
       (Raise e, w') \<Rightarrow> (Raise e, w')
     | (Return x, w') \<Rightarrow> f x w')"

definition tryP :: "'a prog \<Rightarrow> (string \<Rightarrow> 'a prog) \<Rightarrow> 'a prog" where
  "tryP m handler = (\<lambda>w. case m w of
       (Raise e, w') \<Rightarrow> handler e w'
     | (Return x, w') \<Rightarrow> (Return x, w'))"

definition modifyP :: "(world \<Rightarrow> world) \<Rightarrow> unit prog" where
  "modifyP f = (\<lambda>w. (Return (), f w))"

definition uuid4 :: "env \<Rightarrow> string prog" where
  "uuid4 e = (\<lambda>w. (Return (uuid4_hex e (n_uuid w)), w\<lparr>n_uuid := Suc (n_uuid w)\<rparr>))"

text \<open>\<^verbatim>\<open>str(uuid)\<close>: the 32 hex digits in groups of 8-4-4-4-12.\<close>

definition uuid_str :: "string \<Rightarrow> string" where
  "uuid_str h = take 8 h @ ''-'' @ take 4 (drop 8 h) @ ''-'' @ take 4 (drop 12 h)
                 @ ''-'' @ take 4 (drop 16 h) @ ''-'' @ drop 20 h"

definition datetime_utcnow :: "env \<Rightarrow> datetime prog" where
  "datetime_utcnow e = (\<lambda>w. (Return (utcnow e (n_clock w)), w\<lparr>n_clock := Suc (n_clock w)\<rparr>))"

text \<open>
  One awaited call on the \<^verbatim>\<open>AsyncSession\<close> (\<^verbatim>\<open>execute\<close>, \<^verbatim>\<open>commit\<close>,
  \<^verbatim>\<open>refresh\<close>): it raises when the environment says the store fails there.
  The fault of a round trip is whatever makes that call raise, the store, the connection
  or the session itself: a session whose commit has raised is in its
  \<^verbatim>\<open>prepared\<close> state and raises \<^verbatim>\<open>InvalidRequestError\<close> on its next
  statement, which is a fault of that next round trip.
\<close>

definition session_call :: "env \<Rightarrow> unit prog" where
  "session_call e = (\<lambda>w.
     case session_fault e (n_session w) of
       Some msg \<Rightarrow> (Raise msg, w\<lparr>n_session := Suc (n_session w)\<rparr>)
     | None \<Rightarrow> (Return (), w\<lparr>n_session := Suc (n_session w)\<rparr>))"

definition getP :: "world prog" where
  "getP = (\<lambda>w. (Return w, w))"

definition log_call :: "call \<Rightarrow> unit prog" where
  "log_call c = modifyP (\<lambda>w. w\<lparr>calls := calls w @ [c]\<rparr>)"

section \<open>The record store: \<^verbatim>\<open>database/repository.py\<close>\<close>

text \<open>
  The constraints of \<^verbatim>\<open>database/models.py\<close>: \<^verbatim>\<open>payments.id\<close> is the primary
  key, \<^verbatim>\<open>transaction_id\<close> and \<^verbatim>\<open>payment_intent_id\<close> are unique where
  they are not NULL; \<^verbatim>\<open>refunds.id\<close> is the primary key, \<^verbatim>\<open>refund_id\<close> is
  unique and \<^verbatim>\<open>payment_id\<close> references a payment. A statement that would break
  one raises \<^verbatim>\<open>IntegrityError\<close>.
\<close>

fun non_null :: "'a option list \<Rightarrow> 'a list" where
  "non_null [] = []"
| "non_null (None # xs) = non_null xs"
| "non_null (Some x # xs) = x # non_null xs"

definition payments_ok :: "PaymentModel list \<Rightarrow> bool" where
  "payments_ok t \<longleftrightarrow>
     distinct (map id' t) \<and>
     distinct (non_null (map transaction_id t)) \<and>
     distinct (non_null (map payment_intent_id t))"

definition refunds_ok :: "PaymentModel list \<Rightarrow> RefundModel list \<Rightarrow> bool" where
  "refunds_ok t rs \<longleftrightarrow>
     distinct (map rf_id rs) \<and>
     distinct (map rf_refund_id rs) \<and>
     list_all (\<lambda>r. rf_payment_id r \<in> set (map id' t)) rs"

definition integrity :: "bool \<Rightarrow> unit prog" where
  "integrity ok = (if ok then returnP () else raiseP ''IntegrityError'')"

text \<open>
  \<^verbatim>\<open>session.execute(update(PaymentModel).where(PaymentModel.id == payment_id).values(...))\<close>:
  the statement is checked when it is executed and its rows become the table's at
  \<^verbatim>\<open>session.commit()\<close>.
\<close>

definition update_where_id ::
  "string \<Rightarrow> (PaymentModel \<Rightarrow> PaymentModel) \<Rightarrow> PaymentModel list \<Rightarrow> PaymentModel list" where
  "update_where_id payment_id vals t = map (\<lambda>r. if id' r = payment_id then vals r else r) t"

definition session_execute_update ::
  "env \<Rightarrow> (PaymentModel list \<Rightarrow> PaymentModel list) \<Rightarrow> PaymentModel list prog" where
  "session_execute_update e stmt =
     thenP (session_call e) (\<lambda>_.
     thenP getP (\<lambda>w.
     thenP (integrity (payments_ok (stmt (payments w)))) (\<lambda>_.
     returnP (stmt (payments w)))))"

definition session_commit_payments :: "env \<Rightarrow> PaymentModel list \<Rightarrow> unit prog" where
  "session_commit_payments e t =
     thenP (session_call e) (\<lambda>_.
     thenP (integrity (payments_ok t)) (\<lambda>_.
     modifyP (\<lambda>w. w\<lparr>payments := t\<rparr>)))"

definition session_commit_refunds :: "env \<Rightarrow> RefundModel list \<Rightarrow> unit prog" where
  "session_commit_refunds e rs =
     thenP (session_call e) (\<lambda>_.
     thenP getP (\<lambda>w.
     thenP (integrity (refunds_ok (payments w) rs)) (\<lambda>_.
     modifyP (\<lambda>w. w\<lparr>refunds := rs\<rparr>))))"

definition scalar_one_or_none :: "'a list \<Rightarrow> 'a option prog" where
  "scalar_one_or_none rows = (case rows of
       [] \<Rightarrow> returnP None
     | [r] \<Rightarrow> returnP (Some r)
     | _ \<Rightarrow> raiseP ''MultipleResultsFound'')"

definition to_domain :: "PaymentModel \<Rightarrow> PaymentModel" where
  "to_domain db_payment = db_payment"

definition session_select ::
  "env \<Rightarrow> (PaymentModel \<Rightarrow> bool) \<Rightarrow> PaymentModel option prog" where
  "session_select e cond =
     thenP (session_call e) (\<lambda>_.
     thenP getP (\<lambda>w.
     thenP (scalar_one_or_none (filter cond (payments w))) (\<lambda>db_payment.
     returnP (case db_payment of None \<Rightarrow> None | Some r \<Rightarrow> Some (to_domain r)))))"

definition get_by_id :: "env \<Rightarrow> string \<Rightarrow> PaymentModel option prog" where
  "get_by_id e payment_id = session_select e (\<lambda>r. id' r = payment_id)"

definition get_by_order_id :: "env \<Rightarrow> string \<Rightarrow> PaymentModel option prog" where
  "get_by_order_id e oid = session_select e (\<lambda>r. order_id r = oid)"

definition get_by_transaction_id :: "env \<Rightarrow> string \<Rightarrow> PaymentModel option prog" where
  "get_by_transaction_id e tid = session_select e (\<lambda>r. transaction_id r = Some tid)"

definition create_payment ::
  "env \<Rightarrow> string \<Rightarrow> amount \<Rightarrow> Currency \<Rightarrow> PaymentMethod \<Rightarrow> PaymentModel prog" where
  "create_payment e oid amt cur method =
     thenP (uuid4 e) (\<lambda>h.
     thenP (datetime_utcnow e) (\<lambda>created.
     thenP (datetime_utcnow e) (\<lambda>updated.
     let db_payment = \<lparr>id' = uuid_str h, order_id = oid, amount = amt, currency = cur,
           payment_method = method, status = PENDING, transaction_id = None,
           payment_intent_id = None, provider_response = None, error_message = None,
           created_at = created, updated_at = updated, authorized_at = None,
           captured_at = None, refunded_at = None\<rparr> in
     thenP getP (\<lambda>w.
     thenP (session_commit_payments e (payments w @ [db_payment])) (\<lambda>_.
     thenP (session_call e) (\<lambda>_.
     returnP (to_domain db_payment)))))))"

definition update_status :: "env \<Rightarrow> string \<Rightarrow> PaymentStatus \<Rightarrow> PaymentModel option prog" where
  "update_status e payment_id st =
     thenP (datetime_utcnow e) (\<lambda>now.
     thenP (session_execute_update e
              (update_where_id payment_id (\<lambda>r. r\<lparr>status := st, updated_at := now\<rparr>))) (\<lambda>t.
     thenP (session_commit_payments e t) (\<lambda>_.
     get_by_id e payment_id)))"

definition update_payment_success ::
  "env \<Rightarrow> string \<Rightarrow> string \<Rightarrow> string \<Rightarrow> gateway_result \<Rightarrow> PaymentModel option prog" where
  "update_payment_success e payment_id tid piid response =
     thenP (datetime_utcnow e) (\<lambda>now.
     thenP (session_execute_update e
              (update_where_id payment_id (\<lambda>r. r\<lparr>status := CAPTURED,
                  transaction_id := Some tid, payment_intent_id := Some piid,
                  provider_response := Some response, authorized_at := Some now,
                  captured_at := Some now, updated_at := now\<rparr>))) (\<lambda>t.
     thenP (session_commit_payments e t) (\<lambda>_.
     get_by_id e payment_id)))"

definition update_payment_failure ::
  "env \<Rightarrow> string \<Rightarrow> string \<Rightarrow> gateway_result option \<Rightarrow> PaymentModel option prog" where
  "update_payment_failure e payment_id msg response =
     thenP (datetime_utcnow e) (\<lambda>now.
     thenP (session_execute_update e
              (update_where_id payment_id (\<lambda>r. r\<lparr>status := FAILED,
                  error_message := Some msg, provider_response := response,
                  updated_at := now\<rparr>))) (\<lambda>t.
     thenP (session_commit_payments e t) (\<lambda>_.
     get_by_id e payment_id)))"

definition add_refund_record ::
  "env \<Rightarrow> string \<Rightarrow> string \<Rightarrow> amount \<Rightarrow> string option \<Rightarrow> unit prog" where
  "add_refund_record e payment_id refund_id amt reason =
     thenP (uuid4 e) (\<lambda>h.
     thenP (datetime_utcnow e) (\<lambda>created.
     let refund = \<lparr>rf_id = uuid_str h, rf_payment_id = payment_id,
           rf_refund_id = refund_id, rf_amount = amt, rf_reason = reason,
           rf_created_at = created\<rparr> in
     thenP getP (\<lambda>w.
     session_commit_refunds e (refunds w @ [refund]))))"

section \<open>The gateway: \<^verbatim>\<open>services/payment_processor.py\<close>\<close>

text \<open>
  \<^verbatim>\<open>_simulate_processing\<close> sleeps for 100 ms and has no other effect.
  \<^verbatim>\<open>_should_succeed\<close> compares a random draw with the success rate 0.95.
\<close>

definition simulate_processing :: "unit prog" where
  "simulate_processing = returnP ()"

definition should_succeed :: "env \<Rightarrow> bool prog" where
  "should_succeed e = (\<lambda>w.
     (Return (random_random e (n_random w) < 95 / 100), w\<lparr>n_random := Suc (n_random w)\<rparr>))"

definition random_choice_of :: "env \<Rightarrow> string list \<Rightarrow> string prog" where
  "random_choice_of e xs = (\<lambda>w.
     (Return (xs ! (random_choice e (n_random w) mod length xs)),
      w\<lparr>n_random := Suc (n_random w)\<rparr>))"

definition get_error_message :: "string \<Rightarrow> string" where
  "get_error_message error_code =
     (if error_code = ''insufficient_funds'' then ''Insufficient funds in account''
      else if error_code = ''card_declined'' then ''Card was declined by issuer''
      else if error_code = ''expired_card'' then ''Card has expired''
      else if error_code = ''invalid_card'' then ''Invalid card number''
      else if error_code = ''capture_failed'' then ''Failed to capture payment''
      else if error_code = ''refund_failed'' then ''Failed to process refund''
      else ''Payment processing error'')"

definition authorize_payment ::
  "env \<Rightarrow> amount \<Rightarrow> PaymentMethod \<Rightarrow> (string \<times> string) list \<Rightarrow> gateway_result prog" where
  "authorize_payment e amt method details =
     thenP (log_call (GwAuthorize amt method)) (\<lambda>_.
     thenP simulate_processing (\<lambda>_.
     thenP (should_succeed e) (\<lambda>ok.
     if ok then
       thenP (uuid4 e) (\<lambda>h1.
       thenP (uuid4 e) (\<lambda>h2.
       thenP (datetime_utcnow e) (\<lambda>now.
       returnP (Authorized (''pi_'' @ take 24 h1) (''txn_'' @ take 16 h2) now amt))))
     else
       thenP (random_choice_of e [''insufficient_funds'', ''card_declined'', ''expired_card''])
         (\<lambda>error_code.
       returnP (Failure error_code (get_error_message error_code) True)))))"

definition capture_payment :: "env \<Rightarrow> string \<Rightarrow> amount \<Rightarrow> gateway_result prog" where
  "capture_payment e intent amt =
     thenP (log_call (GwCapture intent amt)) (\<lambda>_.
     thenP simulate_processing (\<lambda>_.
     thenP (should_succeed e) (\<lambda>ok.
     if ok then
       thenP (uuid4 e) (\<lambda>h.
       thenP (datetime_utcnow e) (\<lambda>now.
       returnP (Captured (''txn_'' @ take 16 h) intent now amt)))
     else
       returnP (Failure ''capture_failed'' ''Failed to capture payment'' True))))"

text \<open>Reading a key of a result dict: \<^verbatim>\<open>result[key]\<close> raises \<^verbatim>\<open>KeyError\<close>
  where the dict has no such key, \<^verbatim>\<open>result.get(key, default)\<close> gives the default.\<close>

definition key_error :: "string \<Rightarrow> 'a prog" where
  "key_error k = raiseP ([CHR 0x27] @ k @ [CHR 0x27])"

fun getitem_success :: "gateway_result \<Rightarrow> bool" where
  "getitem_success (Failure _ _ _) = False"
| "getitem_success _ = True"

fun getitem_transaction_id :: "gateway_result \<Rightarrow> string prog" where
  "getitem_transaction_id (Authorized _ t _ _) = returnP t"
| "getitem_transaction_id (Captured t _ _ _) = returnP t"
| "getitem_transaction_id (RefundedOk _ t _ _) = returnP t"
| "getitem_transaction_id _ = key_error ''transaction_id''"

fun getitem_payment_intent_id :: "gateway_result \<Rightarrow> string prog" where
  "getitem_payment_intent_id (Authorized p _ _ _) = returnP p"
| "getitem_payment_intent_id (Captured _ p _ _) = returnP p"
| "getitem_payment_intent_id (Voided p) = returnP p"
| "getitem_payment_intent_id _ = key_error ''payment_intent_id''"

fun getitem_refund_id :: "gateway_result \<Rightarrow> string prog" where
  "getitem_refund_id (RefundedOk r _ _ _) = returnP r"
| "getitem_refund_id _ = key_error ''refund_id''"

fun get_error_message_or :: "gateway_result \<Rightarrow> string \<Rightarrow> string" where
  "get_error_message_or (Failure _ msg _) dflt = msg"
| "get_error_message_or _ dflt = dflt"

definition processor_process_payment ::
  "env \<Rightarrow> amount \<Rightarrow> PaymentMethod \<Rightarrow> (string \<times> string) list \<Rightarrow> gateway_result prog" where
  "processor_process_payment e amt method details =
     thenP (authorize_payment e amt method details) (\<lambda>auth_result.
     if \<not> getitem_success auth_result then returnP auth_result
     else
       thenP (getitem_payment_intent_id auth_result) (\<lambda>intent.
       capture_payment e intent amt))"

definition processor_refund_payment ::
  "env \<Rightarrow> string \<Rightarrow> amount \<Rightarrow> string option \<Rightarrow> gateway_result prog" where
  "processor_refund_payment e tid amt reason =
     thenP (log_call (GwRefund tid amt reason)) (\<lambda>_.
     thenP simulate_processing (\<lambda>_.
     thenP (should_succeed e) (\<lambda>ok.
     if ok then
       thenP (uuid4 e) (\<lambda>h.
       thenP (datetime_utcnow e) (\<lambda>now.
       returnP (RefundedOk (''re_'' @ take 16 h) tid amt now)))
     else
       returnP (Failure ''refund_failed'' ''Failed to process refund'' False))))"

section \<open>The publisher: \<^verbatim>\<open>services/event_publisher.py\<close>\<close>

text \<open>
  \<^verbatim>\<open>self.producer.send(...)\<close>: an \<^verbatim>\<open>AttributeError\<close> while the producer is
  still \<^verbatim>\<open>None\<close>; otherwise the attempt is logged and the send raises or hands the
  event over, as the environment says.
\<close>

definition producer_send :: "env \<Rightarrow> event \<Rightarrow> unit prog" where
  "producer_send e ev = (\<lambda>w.
     if \<not> producer w then (Raise ''AttributeError'', w)
     else
       let w1 = w\<lparr>calls := calls w @ [KafkaSend ev], n_send := Suc (n_send w)\<rparr> in
       case send_fault e (n_send w) of
         Some msg \<Rightarrow> (Raise msg, w1)
       | None \<Rightarrow> (Return (), w1\<lparr>delivered := delivered w1 @ [ev]\<rparr>))"

definition publish_event :: "env \<Rightarrow> string \<Rightarrow> string \<Rightarrow> event_data \<Rightarrow> unit prog" where
  "publish_event e etype pid d =
     tryP
       (thenP (datetime_utcnow e) (\<lambda>now.
        producer_send e \<lparr>event_type = etype, ev_payment_id = pid, timestamp = now, data = d\<rparr>))
       (\<lambda>err. returnP ())"

text \<open>
  The three publishers read the attributes of \<^verbatim>\<open>payment\<close> before
  \<^verbatim>\<open>_publish_event\<close> is entered; on \<^verbatim>\<open>None\<close> (what the store's update
  returns for an unknown id) that is an \<^verbatim>\<open>AttributeError\<close> outside the
  publisher's \<^verbatim>\<open>try\<close>.
\<close>

definition attr_of_none :: "'a prog" where
  "attr_of_none = raiseP ''AttributeError''"

definition publish_payment_successful :: "env \<Rightarrow> PaymentModel option \<Rightarrow> unit prog" where
  "publish_payment_successful e payment = (case payment of
       None \<Rightarrow> attr_of_none
     | Some p \<Rightarrow> publish_event e ''payment.successful'' (id' p)
         (SuccessfulData (order_id p) (amount p) (currency p) (payment_method p)
            (transaction_id p) (payment_intent_id p)))"

definition publish_payment_failed :: "env \<Rightarrow> PaymentModel option \<Rightarrow> string \<Rightarrow> unit prog" where
  "publish_payment_failed e payment msg = (case payment of
       None \<Rightarrow> attr_of_none
     | Some p \<Rightarrow> publish_event e ''payment.failed'' (id' p)
         (FailedData (order_id p) (amount p) (currency p) (payment_method p) msg))"

definition publish_payment_refunded ::
  "env \<Rightarrow> PaymentModel option \<Rightarrow> string \<Rightarrow> amount \<Rightarrow> unit prog" where
  "publish_payment_refunded e payment refund_id amt = (case payment of
       None \<Rightarrow> attr_of_none
     | Some p \<Rightarrow> publish_event e ''payment.refunded'' (id' p)
         (RefundedData (order_id p) refund_id amt (amount p) (currency p)))"

section \<open>The orchestrator: \<^verbatim>\<open>services/payment_service.py\<close>\<close>

text \<open>\<^verbatim>\<open>payment.id\<close>, where \<^verbatim>\<open>payment\<close> may be \<^verbatim>\<open>None\<close>.\<close>

definition attr_id :: "PaymentModel option \<Rightarrow> string prog" where
  "attr_id payment = (case payment of None \<Rightarrow> attr_of_none | Some p \<Rightarrow> returnP (id' p))"

text \<open>
  \<^verbatim>\<open>process_payment\<close> rebinds its local \<^verbatim>\<open>payment\<close> inside the
  \<^verbatim>\<open>try\<close> block, to what the store's update returns, and the \<^verbatim>\<open>except\<close>
  block reads \<^verbatim>\<open>payment.id\<close>. The \<^verbatim>\<open>try\<close> block is therefore written in two
  parts, up to the rebinding and after it, and the \<^verbatim>\<open>except\<close> block takes the
  binding in force where the exception was raised.
\<close>

definition try_until_rebound ::
  "env \<Rightarrow> ProcessPaymentRequest \<Rightarrow> PaymentModel
     \<Rightarrow> (PaymentModel option \<times> (string \<times> string + string)) prog" where
  "try_until_rebound e request payment =
     thenP (update_status e (id' payment) PROCESSING) (\<lambda>_.
     thenP (processor_process_payment e (req_amount request) (req_payment_method request)
              (case payment_method_details request of None \<Rightarrow> [] | Some d \<Rightarrow> d)) (\<lambda>result.
     if getitem_success result then
       thenP (getitem_transaction_id result) (\<lambda>tid.
       thenP (getitem_payment_intent_id result) (\<lambda>piid.
       thenP (update_payment_success e (id' payment) tid piid result) (\<lambda>payment'.
       returnP (payment', Inl (tid, piid)))))
     else
       let msg = get_error_message_or result ''Payment processing failed'' in
       thenP (update_payment_failure e (id' payment) msg (Some result)) (\<lambda>payment'.
       returnP (payment', Inr msg))))"

definition try_after_rebound ::
  "env \<Rightarrow> PaymentModel option \<Rightarrow> string \<times> string + string \<Rightarrow> PaymentResponse prog" where
  "try_after_rebound e payment' branch = (case branch of
       Inl (tid, piid) \<Rightarrow>
         thenP (publish_payment_successful e payment') (\<lambda>_.
         thenP (attr_id payment') (\<lambda>_.
         returnP \<lparr>success = True, resp_transaction_id = Some tid,
            resp_payment_intent_id = Some piid, resp_status = CAPTURED, error = None\<rparr>))
     | Inr msg \<Rightarrow>
         thenP (publish_payment_failed e payment' msg) (\<lambda>_.
         thenP (attr_id payment') (\<lambda>_.
         returnP \<lparr>success = False, resp_transaction_id = None,
            resp_payment_intent_id = None, resp_status = FAILED, error = Some msg\<rparr>)))"

definition except_block :: "env \<Rightarrow> PaymentModel option \<Rightarrow> string \<Rightarrow> PaymentResponse prog" where
  "except_block e payment err =
     thenP (attr_id payment) (\<lambda>payment_id.
     thenP (update_payment_failure e payment_id err None) (\<lambda>_.
     returnP \<lparr>success = False, resp_transaction_id = None,
        resp_payment_intent_id = None, resp_status = FAILED,
        error = Some (''Payment processing error: '' @ err)\<rparr>))"

definition process_payment :: "env \<Rightarrow> ProcessPaymentRequest \<Rightarrow> PaymentResponse prog" where
  "process_payment e request =
     thenP (create_payment e (req_order_id request) (req_amount request)
              (req_currency request) (req_payment_method request)) (\<lambda>payment.
     thenP (tryP (thenP (try_until_rebound e request payment) (\<lambda>x. returnP (Inr x)))
                 (\<lambda>err. returnP (Inl err))) (\<lambda>r.
     case r of
       Inl err \<Rightarrow> except_block e (Some payment) err
     | Inr (payment', branch) \<Rightarrow>
         tryP (try_after_rebound e payment' branch) (except_block e payment')))"

definition refund_payment :: "env \<Rightarrow> RefundRequest \<Rightarrow> RefundResponse prog" where
  "refund_payment e request =
     thenP (get_by_transaction_id e (rr_transaction_id request)) (\<lambda>found.
     case found of
       None \<Rightarrow>
         returnP \<lparr>r_success = False, r_refund_id = None, r_amount = rr_amount request,
            r_error = Some ''Payment not found''\<rparr>
     | Some payment \<Rightarrow>
         if status payment \<notin> set [CAPTURED, PARTIALLY_REFUNDED] then
           returnP \<lparr>r_success = False, r_refund_id = None, r_amount = rr_amount request,
              r_error = Some (''Payment in status '' @ format_status e (status payment)
                                @ '' cannot be refunded'')\<rparr>
         else
           tryP
             (thenP (processor_refund_payment e (rr_transaction_id request)
                       (rr_amount request) (rr_reason request)) (\<lambda>result.
              if getitem_success result then
                let new_status = (if rr_amount request \<ge> amount payment then REFUNDED
                                  else PARTIALLY_REFUNDED) in
                thenP (update_status e (id' payment) new_status) (\<lambda>_.
                thenP (getitem_refund_id result) (\<lambda>refund_id.
                thenP (add_refund_record e (id' payment) refund_id (rr_amount request)
                         (rr_reason request)) (\<lambda>_.
                thenP (publish_payment_refunded e (Some payment) refund_id
                         (rr_amount request)) (\<lambda>_.
                returnP \<lparr>r_success = True, r_refund_id = Some refund_id,
                   r_amount = rr_amount request, r_error = None\<rparr>))))
              else
                returnP \<lparr>r_success = False, r_refund_id = None, r_amount = rr_amount request,
                   r_error = Some (get_error_message_or result ''Refund processing failed'')\<rparr>))
             (\<lambda>err.
                returnP \<lparr>r_success = False, r_refund_id = None, r_amount = rr_amount request,
                   r_error = Some (''Refund processing error: '' @ err)\<rparr>))"

section \<open>Test doubles and the properties' vocabulary\<close>

text \<open>
  A deterministic environment in which the store and the producer never fail, every
  gateway draw succeeds, the clock counts its own readings and the \<open>n\<close>-th UUID is
  the number \<open>n\<close> in its first two hex digits. \<open>PaymentStatus_value\<close> is the
  \<^verbatim>\<open>.value\<close> of a status (\<^verbatim>\<open>models/payment.py\<close>), which is what an f-string
  shows of a \<^verbatim>\<open>str\<close>-mixin enum before Python 3.11.
\<close>

definition hex_digit :: "nat \<Rightarrow> char" where
  "hex_digit d = ''0123456789abcdef'' ! (d mod 16)"

definition test_uuid4_hex :: "nat \<Rightarrow> string" where
  "test_uuid4_hex n = hex_digit (n div 16) # hex_digit n # ''000000000000000000000000000000''"

fun PaymentStatus_value :: "PaymentStatus \<Rightarrow> string" where
  "PaymentStatus_value PENDING = ''pending''"
| "PaymentStatus_value PROCESSING = ''processing''"
| "PaymentStatus_value AUTHORIZED = ''authorized''"
| "PaymentStatus_value CAPTURED = ''captured''"
| "PaymentStatus_value FAILED = ''failed''"
| "PaymentStatus_value REFUNDED = ''refunded''"
| "PaymentStatus_value PARTIALLY_REFUNDED = ''partially_refunded''"

definition test_env :: env where
  "test_env = \<lparr>uuid4_hex = test_uuid4_hex, random_random = (\<lambda>_. 0),
     random_choice = (\<lambda>_. 0), utcnow = (\<lambda>n. n), session_fault = (\<lambda>_. None),
     send_fault = (\<lambda>_. None), format_status = PaymentStatus_value\<rparr>"

text \<open>The same environment with a gateway that declines every call.\<close>

definition declining_env :: env where
  "declining_env = test_env\<lparr>random_random := (\<lambda>_. 99 / 100)\<rparr>"




definition fresh_world :: world where
  "fresh_world = \<lparr>payments = [], refunds = [], producer = True, delivered = [], calls = [],
     n_uuid = 0, n_random = 0, n_clock = 0, n_session = 0, n_send = 0\<rparr>"

definition ord1_request :: ProcessPaymentRequest where
  "ord1_request = \<lparr>req_order_id = ''ORD-1'', req_amount = 100, req_currency = USD,
     req_payment_method = CREDIT_CARD, payment_method_details = None\<rparr>"

text \<open>The store after the payment of 100.00 for order ORD-1 has been captured.\<close>

definition captured_payment :: PaymentModel where
  "captured_payment = \<lparr>id' = ''00000000-0000-0000-0000-000000000000'', order_id = ''ORD-1'',
     amount = 100, currency = USD, payment_method = CREDIT_CARD, status = CAPTURED,
     transaction_id = Some ''txn_0300000000000000'',
     payment_intent_id = Some ''pi_010000000000000000000000'',
     provider_response = Some (Captured ''txn_0300000000000000''
        ''pi_010000000000000000000000'' 4 100),
     error_message = None, created_at = 0, updated_at = 5, authorized_at = Some 5,
     captured_at = Some 5, refunded_at = None\<rparr>"

definition captured_world :: world where
  "captured_world = \<lparr>payments = [captured_payment], refunds = [], producer = True,
     delivered = [\<lparr>event_type = ''payment.successful'',
        ev_payment_id = ''00000000-0000-0000-0000-000000000000'', timestamp = 6,
        data = SuccessfulData ''ORD-1'' 100 USD CREDIT_CARD (Some ''txn_0300000000000000'')
                 (Some ''pi_010000000000000000000000'')\<rparr>],
     calls = [GwAuthorize 100 CREDIT_CARD, GwCapture ''pi_010000000000000000000000'' 100,
        KafkaSend \<lparr>event_type = ''payment.successful'',
        ev_payment_id = ''00000000-0000-0000-0000-000000000000'', timestamp = 6,
        data = SuccessfulData ''ORD-1'' 100 USD CREDIT_CARD (Some ''txn_0300000000000000'')
                 (Some ''pi_010000000000000000000000'')\<rparr>],
     n_uuid = 4, n_random = 2, n_clock = 7, n_session = 8, n_send = 1\<rparr>"

definition refund_of :: "amount \<Rightarrow> RefundRequest" where
  "refund_of a = \<lparr>rr_transaction_id = ''txn_0300000000000000'', rr_amount = a,
     rr_reason = None\<rparr>"

text \<open>Running a sequence of refund requests, one after the other.\<close>

fun run_refunds :: "env \<Rightarrow> RefundRequest list \<Rightarrow> world \<Rightarrow> world" where
  "run_refunds e [] w = w"
| "run_refunds e (r # rs) w = run_refunds e rs (snd (refund_payment e r w))"

definition refunds_of :: "world \<Rightarrow> string \<Rightarrow> RefundModel list" where
  "refunds_of w pid = filter (\<lambda>r. rf_payment_id r = pid) (refunds w)"

text \<open>
  What the orchestrator's status guard does maintain: payment ids are distinct, every
  refund row of a payment but its last is below the payment's amount, and a row that
  reaches the amount belongs to a payment that is \<open>REFUNDED\<close>.
\<close>

definition full_refund_last :: "world \<Rightarrow> bool" where
  "full_refund_last w \<longleftrightarrow>
     distinct (map id' (payments w)) \<and>
     list_all (\<lambda>p.
         list_all (\<lambda>r. rf_amount r < amount p) (butlast (refunds_of w (id' p))) \<and>
         (status p = REFUNDED \<or>
          list_all (\<lambda>r. rf_amount r < amount p) (refunds_of w (id' p))))
       (payments w)"

text \<open>The columns of a payment row other than \<^verbatim>\<open>status\<close> and \<^verbatim>\<open>updated_at\<close>.\<close>

definition untouched_by_refund :: "PaymentModel \<Rightarrow> PaymentModel" where
  "untouched_by_refund r = r\<lparr>status := PENDING, updated_at := 0\<rparr>"

text \<open>
  A relation between the world before and after holds across a program when it holds
  from every starting world, however the program ends.
\<close>

definition keeps :: "(world \<Rightarrow> world \<Rightarrow> bool) \<Rightarrow> 'a prog \<Rightarrow> bool" where
  "keeps R m \<longleftrightarrow> (\<forall>w. R w (snd (m w)))"

text \<open>The column \<^verbatim>\<open>refunded_at\<close> has only gained rows, and they hold \<^verbatim>\<open>NULL\<close>.\<close>

definition refunded_at_unassigned :: "world \<Rightarrow> world \<Rightarrow> bool" where
  "refunded_at_unassigned w w' \<longleftrightarrow>
     (\<exists>k. map refunded_at (payments w') = map refunded_at (payments w) @ replicate k None)"


section \<open>Stepping through programs\<close>

lemma thenP_Return: "m w = (Return x, w') \<Longrightarrow> thenP m f w = f x w'"
  by (simp add: thenP_def)

lemma thenP_Raise: "m w = (Raise err, w') \<Longrightarrow> thenP m f w = (Raise err, w')"
  by (simp add: thenP_def)

lemma tryP_Return: "m w = (Return x, w') \<Longrightarrow> tryP m h w = (Return x, w')"
  by (simp add: tryP_def)

lemma tryP_Raise: "m w = (Raise err, w') \<Longrightarrow> tryP m h w = h err w'"
  by (simp add: tryP_def)

lemma thenP_returnP: "thenP (returnP x) f w = f x w"
  by (simp add: thenP_def returnP_def)

lemma thenP_raiseP: "thenP (raiseP err) f w = (Raise err, w)"
  by (simp add: thenP_def raiseP_def)

lemma thenP_getP: "thenP getP f w = f w w"
  by (simp add: thenP_def getP_def)

lemma thenP_modifyP: "thenP (modifyP g) f w = f () (g w)"
  by (simp add: thenP_def modifyP_def)

lemma thenP_log_call: "thenP (log_call c) f w = f () (w\<lparr>calls := calls w @ [c]\<rparr>)"
  by (simp add: log_call_def thenP_modifyP)

lemma thenP_utcnow:
  "thenP (datetime_utcnow e) f w = f (utcnow e (n_clock w)) (w\<lparr>n_clock := Suc (n_clock w)\<rparr>)"
  by (simp add: thenP_def datetime_utcnow_def)

lemma thenP_uuid4:
  "thenP (uuid4 e) f w = f (uuid4_hex e (n_uuid w)) (w\<lparr>n_uuid := Suc (n_uuid w)\<rparr>)"
  by (simp add: thenP_def uuid4_def)

lemma thenP_should_succeed:
  "thenP (should_succeed e) f w
     = f (random_random e (n_random w) < 95 / 100) (w\<lparr>n_random := Suc (n_random w)\<rparr>)"
  by (simp add: thenP_def should_succeed_def)

lemma thenP_session_call_up:
  "session_fault e (n_session w) = None \<Longrightarrow>
   thenP (session_call e) f w = f () (w\<lparr>n_session := Suc (n_session w)\<rparr>)"
  by (simp add: thenP_def session_call_def)

lemma thenP_session_call_down:
  "session_fault e (n_session w) = Some msg \<Longrightarrow>
   thenP (session_call e) f w = (Raise msg, w\<lparr>n_session := Suc (n_session w)\<rparr>)"
  by (simp add: thenP_def session_call_def)

lemma thenP_assoc: "thenP (thenP m f) g = thenP m (\<lambda>x. thenP (f x) g)"
  by (auto simp: thenP_def fun_eq_iff split: prod.splits outcome.splits)

lemma returnP_apply: "returnP x w = (Return x, w)"
  by (simp add: returnP_def)

lemma raiseP_apply: "raiseP err w = (Raise err, w)"
  by (simp add: raiseP_def)

lemma modifyP_apply: "modifyP g w = (Return (), g w)"
  by (simp add: modifyP_def)

lemmas steps = thenP_assoc returnP_apply raiseP_apply modifyP_apply thenP_returnP thenP_raiseP thenP_getP thenP_modifyP thenP_log_call thenP_utcnow
  thenP_uuid4 thenP_should_succeed

section \<open>The publisher swallows what the producer raises\<close>

lemma publish_event_result:
  "publish_event e etype pid d w =
     (Return (),
      if producer w then
        (case send_fault e (n_send w) of
           Some msg \<Rightarrow> w\<lparr>n_clock := Suc (n_clock w),
                          calls := calls w @ [KafkaSend \<lparr>event_type = etype, ev_payment_id = pid,
                                     timestamp = utcnow e (n_clock w), data = d\<rparr>],
                          n_send := Suc (n_send w)\<rparr>
         | None \<Rightarrow> w\<lparr>n_clock := Suc (n_clock w),
                      calls := calls w @ [KafkaSend \<lparr>event_type = etype, ev_payment_id = pid,
                                     timestamp = utcnow e (n_clock w), data = d\<rparr>],
                      n_send := Suc (n_send w),
                      delivered := delivered w @ [\<lparr>event_type = etype, ev_payment_id = pid,
                                     timestamp = utcnow e (n_clock w), data = d\<rparr>]\<rparr>)
      else w\<lparr>n_clock := Suc (n_clock w)\<rparr>)"
  by (simp add: publish_event_def tryP_def thenP_def datetime_utcnow_def producer_send_def
        returnP_def Let_def split: option.splits)

section \<open>The store while it is up\<close>

lemma non_null_append: "non_null (xs @ ys) = non_null xs @ non_null ys"
  by (induction xs rule: non_null.induct) simp_all

lemma set_non_null: "x \<in> set (non_null xs) \<longleftrightarrow> Some x \<in> set xs"
  by (induction xs rule: non_null.induct) auto

lemma update_where_id_absent:
  "pid \<notin> id' ` set t \<Longrightarrow> update_where_id pid vals t = t"
  by (induction t) (auto simp: update_where_id_def)

lemma update_where_id_append:
  "update_where_id pid vals (t @ u) = update_where_id pid vals t @ update_where_id pid vals u"
  by (simp add: update_where_id_def)

lemma filter_id_absent:
  "pid \<notin> id' ` set t \<Longrightarrow> filter (\<lambda>r. id' r = pid) t = []"
  by (induction t) auto

lemma filter_id_update:
  "(\<And>r. id' (vals r) = id' r) \<Longrightarrow>
   filter (\<lambda>r. id' r = pid) (update_where_id pid vals t) = map vals (filter (\<lambda>r. id' r = pid) t)"
  by (induction t) (auto simp: update_where_id_def)

lemma map_key_update:
  "(\<And>r. key (vals r) = key r) \<Longrightarrow> map key (update_where_id pid vals t) = map key t"
  by (induction t) (auto simp: update_where_id_def)

lemma payments_ok_update:
  assumes "\<And>r. id' (vals r) = id' r" and "\<And>r. transaction_id (vals r) = transaction_id r"
    and "\<And>r. payment_intent_id (vals r) = payment_intent_id r"
  shows "payments_ok (update_where_id pid vals t) = payments_ok t"
  using assms by (simp add: payments_ok_def map_key_update)

lemma payments_ok_snoc:
  "payments_ok (t @ [r]) \<longleftrightarrow>
     payments_ok t \<and> id' r \<notin> id' ` set t \<and>
     (case transaction_id r of None \<Rightarrow> True | Some x \<Rightarrow> Some x \<notin> transaction_id ` set t) \<and>
     (case payment_intent_id r of None \<Rightarrow> True | Some x \<Rightarrow> Some x \<notin> payment_intent_id ` set t)"
  by (auto simp: payments_ok_def non_null_append set_non_null split: option.splits)

lemma filter_id_unique:
  "distinct (map id' t) \<Longrightarrow> p \<in> set t \<Longrightarrow> filter (\<lambda>r. id' r = id' p) t = [p]"
proof (induction t)
  case Nil
  then show ?case by simp
next
  case (Cons a t)
  then show ?case by (auto simp: filter_id_absent)
qed

text \<open>The common tail of the three updates, while the store is up.\<close>

lemma update_then_get:
  assumes up: "\<forall>k. session_fault e k = None"
    and ok: "payments_ok (update_where_id pid vals (payments w))"
    and rows: "filter (\<lambda>r. id' r = pid) (update_where_id pid vals (payments w)) = rows"
    and len: "length rows \<le> 1"
  shows "thenP (session_execute_update e (update_where_id pid vals)) (\<lambda>t.
           thenP (session_commit_payments e t) (\<lambda>_. get_by_id e pid)) w
         = (Return (case rows of [] \<Rightarrow> None | r # _ \<Rightarrow> Some r),
            w\<lparr>payments := update_where_id pid vals (payments w),
              n_session := n_session w + 3\<rparr>)"
proof (cases rows)
  case Nil
  with up ok rows show ?thesis
    by (simp add: session_execute_update_def session_commit_payments_def get_by_id_def
          session_select_def thenP_def session_call_def getP_def integrity_def returnP_def
          modifyP_def scalar_one_or_none_def)
next
  case (Cons r rs)
  with len have "rs = []" by simp
  with Cons up ok rows show ?thesis
    by (simp add: session_execute_update_def session_commit_payments_def get_by_id_def
          session_select_def thenP_def session_call_def getP_def integrity_def returnP_def
          modifyP_def scalar_one_or_none_def to_domain_def)
qed

lemma update_status_up:
  assumes up: "\<forall>k. session_fault e k = None"
    and ok: "payments_ok (payments w)"
    and len: "length (filter (\<lambda>r. id' r = pid) (payments w)) \<le> 1"
  shows "update_status e pid st w
         = (Return (case filter (\<lambda>r. id' r = pid) (payments w) of [] \<Rightarrow> None
                    | r # _ \<Rightarrow> Some (r\<lparr>status := st, updated_at := utcnow e (n_clock w)\<rparr>)),
            w\<lparr>payments := update_where_id pid
                  (\<lambda>r. r\<lparr>status := st, updated_at := utcnow e (n_clock w)\<rparr>) (payments w),
              n_clock := Suc (n_clock w), n_session := n_session w + 3\<rparr>)"
proof -
  let ?vals = "\<lambda>r. r\<lparr>status := st, updated_at := utcnow e (n_clock w)\<rparr>"
  let ?w = "w\<lparr>n_clock := Suc (n_clock w)\<rparr>"
  have 1: "payments_ok (update_where_id pid ?vals (payments ?w))"
    using ok by (simp add: payments_ok_update)
  have 2: "filter (\<lambda>r. id' r = pid) (update_where_id pid ?vals (payments ?w))
           = map ?vals (filter (\<lambda>r. id' r = pid) (payments w))"
    by (simp add: filter_id_update)
  have 3: "length (map ?vals (filter (\<lambda>r. id' r = pid) (payments w))) \<le> 1"
    using len by simp
  show ?thesis
    unfolding update_status_def
    by (simp add: thenP_utcnow update_then_get [OF up 1 2 3] split: list.splits)
qed

lemma update_payment_failure_up:
  assumes up: "\<forall>k. session_fault e k = None"
    and ok: "payments_ok (payments w)"
    and len: "length (filter (\<lambda>r. id' r = pid) (payments w)) \<le> 1"
  shows "update_payment_failure e pid msg response w
         = (Return (case filter (\<lambda>r. id' r = pid) (payments w) of [] \<Rightarrow> None
                    | r # _ \<Rightarrow> Some (r\<lparr>status := FAILED, error_message := Some msg,
                          provider_response := response, updated_at := utcnow e (n_clock w)\<rparr>)),
            w\<lparr>payments := update_where_id pid
                  (\<lambda>r. r\<lparr>status := FAILED, error_message := Some msg,
                          provider_response := response, updated_at := utcnow e (n_clock w)\<rparr>)
                  (payments w),
              n_clock := Suc (n_clock w), n_session := n_session w + 3\<rparr>)"
proof -
  let ?vals = "\<lambda>r. r\<lparr>status := FAILED, error_message := Some msg,
                 provider_response := response, updated_at := utcnow e (n_clock w)\<rparr>"
  let ?w = "w\<lparr>n_clock := Suc (n_clock w)\<rparr>"
  have 1: "payments_ok (update_where_id pid ?vals (payments ?w))"
    using ok by (simp add: payments_ok_update)
  have 2: "filter (\<lambda>r. id' r = pid) (update_where_id pid ?vals (payments ?w))
           = map ?vals (filter (\<lambda>r. id' r = pid) (payments w))"
    by (simp add: filter_id_update)
  have 3: "length (map ?vals (filter (\<lambda>r. id' r = pid) (payments w))) \<le> 1"
    using len by simp
  show ?thesis
    unfolding update_payment_failure_def
    by (simp add: thenP_utcnow update_then_get [OF up 1 2 3] split: list.splits)
qed

lemma update_payment_success_up:
  assumes up: "\<forall>k. session_fault e k = None"
    and ok: "payments_ok (update_where_id pid
               (\<lambda>r. r\<lparr>status := CAPTURED, transaction_id := Some tid,
                  payment_intent_id := Some piid, provider_response := Some response,
                  authorized_at := Some (utcnow e (n_clock w)),
                  captured_at := Some (utcnow e (n_clock w)),
                  updated_at := utcnow e (n_clock w)\<rparr>) (payments w))"
    and len: "length (filter (\<lambda>r. id' r = pid) (payments w)) \<le> 1"
  shows "update_payment_success e pid tid piid response w
         = (Return (case filter (\<lambda>r. id' r = pid) (payments w) of [] \<Rightarrow> None
                    | r # _ \<Rightarrow> Some (r\<lparr>status := CAPTURED, transaction_id := Some tid,
                  payment_intent_id := Some piid, provider_response := Some response,
                  authorized_at := Some (utcnow e (n_clock w)),
                  captured_at := Some (utcnow e (n_clock w)),
                  updated_at := utcnow e (n_clock w)\<rparr>)),
            w\<lparr>payments := update_where_id pid
                  (\<lambda>r. r\<lparr>status := CAPTURED, transaction_id := Some tid,
                  payment_intent_id := Some piid, provider_response := Some response,
                  authorized_at := Some (utcnow e (n_clock w)),
                  captured_at := Some (utcnow e (n_clock w)),
                  updated_at := utcnow e (n_clock w)\<rparr>)
                  (payments w),
              n_clock := Suc (n_clock w), n_session := n_session w + 3\<rparr>)"
proof -
  let ?vals = "\<lambda>r. r\<lparr>status := CAPTURED, transaction_id := Some tid,
                  payment_intent_id := Some piid, provider_response := Some response,
                  authorized_at := Some (utcnow e (n_clock w)),
                  captured_at := Some (utcnow e (n_clock w)),
                  updated_at := utcnow e (n_clock w)\<rparr>"
  let ?w = "w\<lparr>n_clock := Suc (n_clock w)\<rparr>"
  have 1: "payments_ok (update_where_id pid ?vals (payments ?w))"
    using ok by simp
  have 2: "filter (\<lambda>r. id' r = pid) (update_where_id pid ?vals (payments ?w))
           = map ?vals (filter (\<lambda>r. id' r = pid) (payments w))"
    by (simp add: filter_id_update)
  have 3: "length (map ?vals (filter (\<lambda>r. id' r = pid) (payments w))) \<le> 1"
    using len by simp
  show ?thesis
    unfolding update_payment_success_def
    by (simp add: thenP_utcnow update_then_get [OF up 1 2 3] split: list.splits)
qed

lemma create_payment_up:
  assumes up: "\<forall>k. session_fault e k = None"
    and ok: "payments_ok (payments w)"
    and fresh: "uuid_str (uuid4_hex e (n_uuid w)) \<notin> id' ` set (payments w)"
  shows "create_payment e oid amt cur method w
         = (Return \<lparr>id' = uuid_str (uuid4_hex e (n_uuid w)), order_id = oid, amount = amt,
              currency = cur, payment_method = method, status = PENDING, transaction_id = None,
              payment_intent_id = None, provider_response = None, error_message = None,
              created_at = utcnow e (n_clock w), updated_at = utcnow e (Suc (n_clock w)),
              authorized_at = None, captured_at = None, refunded_at = None\<rparr>,
            w\<lparr>payments := payments w @ [\<lparr>id' = uuid_str (uuid4_hex e (n_uuid w)),
                 order_id = oid, amount = amt,
                 currency = cur, payment_method = method, status = PENDING, transaction_id = None,
                 payment_intent_id = None, provider_response = None, error_message = None,
                 created_at = utcnow e (n_clock w), updated_at = utcnow e (Suc (n_clock w)),
                 authorized_at = None, captured_at = None, refunded_at = None\<rparr>],
              n_uuid := Suc (n_uuid w), n_clock := n_clock w + 2,
              n_session := n_session w + 2\<rparr>)"
  using assms
  by (simp add: create_payment_def steps Let_def session_commit_payments_def
        thenP_session_call_up integrity_def payments_ok_snoc to_domain_def)

lemma add_refund_record_up:
  assumes up: "\<forall>k. session_fault e k = None"
    and ok: "refunds_ok (payments w) (refunds w)"
    and fk: "pid \<in> id' ` set (payments w)"
    and fresh: "uuid_str (uuid4_hex e (n_uuid w)) \<notin> rf_id ` set (refunds w)"
               "refid \<notin> rf_refund_id ` set (refunds w)"
  shows "add_refund_record e pid refid amt reason w
         = (Return (),
            w\<lparr>refunds := refunds w @ [\<lparr>rf_id = uuid_str (uuid4_hex e (n_uuid w)),
                 rf_payment_id = pid, rf_refund_id = refid, rf_amount = amt, rf_reason = reason,
                 rf_created_at = utcnow e (n_clock w)\<rparr>],
              n_uuid := Suc (n_uuid w), n_clock := Suc (n_clock w),
              n_session := Suc (n_session w)\<rparr>)"
  using assms
  by (simp add: add_refund_record_def steps Let_def session_commit_refunds_def
        thenP_session_call_up integrity_def refunds_ok_def)


lemma filter_id_length:
  "distinct (map id' t) \<Longrightarrow> length (filter (\<lambda>r. id' r = pid) t) \<le> 1"
proof (induction t)
  case Nil
  then show ?case by simp
next
  case (Cons a t)
  then show ?case by (auto simp: filter_id_absent)
qed

lemma processor_process_payment_ok:
  assumes "random_random e (n_random w) < 95 / 100"
    and "random_random e (Suc (n_random w)) < 95 / 100"
  shows "processor_process_payment e amt method details w
         = (Return (Captured (''txn_'' @ take 16 (uuid4_hex e (n_uuid w + 2)))
                       (''pi_'' @ take 24 (uuid4_hex e (n_uuid w)))
                       (utcnow e (Suc (n_clock w))) amt),
            w\<lparr>calls := calls w @ [GwAuthorize amt method,
                        GwCapture (''pi_'' @ take 24 (uuid4_hex e (n_uuid w))) amt],
              n_uuid := n_uuid w + 3, n_random := n_random w + 2, n_clock := n_clock w + 2\<rparr>)"
  using assms
  by (simp add: processor_process_payment_def authorize_payment_def capture_payment_def
        simulate_processing_def steps)

lemma processor_refund_payment_ok:
  assumes "random_random e (n_random w) < 95 / 100"
  shows "processor_refund_payment e tid amt reason w
         = (Return (RefundedOk (''re_'' @ take 16 (uuid4_hex e (n_uuid w))) tid amt
                       (utcnow e (n_clock w))),
            w\<lparr>calls := calls w @ [GwRefund tid amt reason],
              n_uuid := Suc (n_uuid w), n_random := Suc (n_random w),
              n_clock := Suc (n_clock w)\<rparr>)"
  using assms
  by (simp add: processor_refund_payment_def simulate_processing_def steps)

lemma processor_refund_payment_declined:
  assumes "\<not> random_random e (n_random w) < 95 / 100"
  shows "processor_refund_payment e tid amt reason w
         = (Return (Failure ''refund_failed'' ''Failed to process refund'' False),
            w\<lparr>calls := calls w @ [GwRefund tid amt reason], n_random := Suc (n_random w)\<rparr>)"
  using assms
  by (simp add: processor_refund_payment_def simulate_processing_def steps)

section \<open>Refund requests that stop early\<close>

lemma session_call_up:
  "session_fault e (n_session w) = None \<Longrightarrow>
   session_call e w = (Return (), w\<lparr>n_session := Suc (n_session w)\<rparr>)"
  by (simp add: session_call_def)

lemma session_select_found:
  assumes "session_fault e (n_session w) = None" and "filter cond (payments w) = [p]"
  shows "session_select e cond w = (Return (Some p), w\<lparr>n_session := Suc (n_session w)\<rparr>)"
  using assms
  by (simp add: session_select_def thenP_def session_call_def getP_def scalar_one_or_none_def
        returnP_def to_domain_def)

lemma session_select_absent:
  assumes "session_fault e (n_session w) = None" and "filter cond (payments w) = []"
  shows "session_select e cond w = (Return None, w\<lparr>n_session := Suc (n_session w)\<rparr>)"
  using assms
  by (simp add: session_select_def thenP_def session_call_def getP_def scalar_one_or_none_def
        returnP_def)

lemma refund_rejected:
  assumes "session_fault e (n_session w) = None"
    and "filter (\<lambda>r. transaction_id r = Some (rr_transaction_id request)) (payments w) = [payment]"
    and "status payment \<noteq> CAPTURED" and "status payment \<noteq> PARTIALLY_REFUNDED"
  shows "refund_payment e request w =
           (Return \<lparr>r_success = False, r_refund_id = None, r_amount = rr_amount request,
              r_error = Some (''Payment in status '' @ format_status e (status payment)
                                @ '' cannot be refunded'')\<rparr>,
            w\<lparr>n_session := Suc (n_session w)\<rparr>)"
  using assms
  by (simp add: refund_payment_def get_by_transaction_id_def thenP_def session_select_found returnP_def)

lemma processor_refund_frame:
  assumes "processor_refund_payment e tid amt reason w = (out, w')"
  shows "payments w' = payments w \<and> refunds w' = refunds w \<and> delivered w' = delivered w \<and>
         calls w' = calls w @ [GwRefund tid amt reason] \<and> n_session w' = n_session w"
  using assms
  by (auto simp add: processor_refund_payment_def thenP_def log_call_def modifyP_def
        simulate_processing_def returnP_def should_succeed_def uuid4_def datetime_utcnow_def
        split: if_splits)

lemma refund_gateway_failure:
  assumes "session_fault e (n_session w) = None"
    and "filter (\<lambda>r. transaction_id r = Some (rr_transaction_id request)) (payments w) = [payment]"
    and "status payment = CAPTURED \<or> status payment = PARTIALLY_REFUNDED"
    and "processor_refund_payment e (rr_transaction_id request) (rr_amount request)
           (rr_reason request) (w\<lparr>n_session := Suc (n_session w)\<rparr>)
         = (Return (Failure code msg flag), w')"
  shows "refund_payment e request w =
           (Return \<lparr>r_success = False, r_refund_id = None, r_amount = rr_amount request,
              r_error = Some msg\<rparr>, w')"
  using assms
  by (auto simp add: refund_payment_def get_by_transaction_id_def thenP_def tryP_def
        session_select_found returnP_def)

section \<open>The two paths on which everything succeeds\<close>

lemma publish_event_Return: "fst (publish_event e etype pid d w) = Return ()"
  by (simp add: publish_event_result)

lemma thenP_publish_event:
  "thenP (publish_event e etype pid d) f w = f () (snd (publish_event e etype pid d w))"
  by (simp add: thenP_def publish_event_result split: option.splits)

lemma update_where_id_Nil: "update_where_id pid vals [] = []"
  by (simp add: update_where_id_def)

lemma update_where_id_Cons:
  "update_where_id pid vals (r # t)
     = (if id' r = pid then vals r else r) # update_where_id pid vals t"
  by (simp add: update_where_id_def)

lemma process_payment_captured:
  assumes up: "\<forall>k. session_fault e k = None"
    and ok: "payments_ok (payments w)"
    and gw: "random_random e (n_random w) < 95 / 100"
            "random_random e (Suc (n_random w)) < 95 / 100"
    and fresh_id: "uuid_str (uuid4_hex e (n_uuid w)) \<notin> id' ` set (payments w)"
    and fresh_txn: "Some (''txn_'' @ take 16 (uuid4_hex e (n_uuid w + 3)))
                      \<notin> transaction_id ` set (payments w)"
    and fresh_pi: "Some (''pi_'' @ take 24 (uuid4_hex e (Suc (n_uuid w))))
                      \<notin> payment_intent_id ` set (payments w)"
  shows "process_payment e request w
         = (Return \<lparr>success = True,
              resp_transaction_id = Some (''txn_'' @ take 16 (uuid4_hex e (n_uuid w + 3))),
              resp_payment_intent_id = Some (''pi_'' @ take 24 (uuid4_hex e (Suc (n_uuid w)))),
              resp_status = CAPTURED, error = None\<rparr>,
            snd (publish_event e ''payment.successful'' (uuid_str (uuid4_hex e (n_uuid w)))
                   (SuccessfulData (req_order_id request) (req_amount request)
                      (req_currency request) (req_payment_method request)
                      (Some (''txn_'' @ take 16 (uuid4_hex e (n_uuid w + 3))))
                      (Some (''pi_'' @ take 24 (uuid4_hex e (Suc (n_uuid w))))))
                   (w\<lparr>payments := payments w @
                        [\<lparr>id' = uuid_str (uuid4_hex e (n_uuid w)),
                          order_id = req_order_id request, amount = req_amount request,
                          currency = req_currency request,
                          payment_method = req_payment_method request, status = CAPTURED,
                          transaction_id = Some (''txn_'' @ take 16 (uuid4_hex e (n_uuid w + 3))),
                          payment_intent_id =
                            Some (''pi_'' @ take 24 (uuid4_hex e (Suc (n_uuid w)))),
                          provider_response = Some (Captured
                            (''txn_'' @ take 16 (uuid4_hex e (n_uuid w + 3)))
                            (''pi_'' @ take 24 (uuid4_hex e (Suc (n_uuid w))))
                            (utcnow e (n_clock w + 4)) (req_amount request)),
                          error_message = None, created_at = utcnow e (n_clock w),
                          updated_at = utcnow e (n_clock w + 5),
                          authorized_at = Some (utcnow e (n_clock w + 5)),
                          captured_at = Some (utcnow e (n_clock w + 5)),
                          refunded_at = None\<rparr>],
                      calls := calls w @ [GwAuthorize (req_amount request)
                                            (req_payment_method request),
                          GwCapture (''pi_'' @ take 24 (uuid4_hex e (Suc (n_uuid w))))
                            (req_amount request)],
                      n_uuid := n_uuid w + 4, n_random := n_random w + 2,
                      n_clock := n_clock w + 6, n_session := n_session w + 8\<rparr>)))"
proof -
  define pid where "pid = uuid_str (uuid4_hex e (n_uuid w))"
  define tid where "tid = ''txn_'' @ take 16 (uuid4_hex e (n_uuid w + 3))"
  define piid where "piid = ''pi_'' @ take 24 (uuid4_hex e (Suc (n_uuid w)))"
  define p0 where "p0 = \<lparr>id' = pid, order_id = req_order_id request,
      amount = req_amount request, currency = req_currency request,
      payment_method = req_payment_method request, status = PENDING, transaction_id = None,
      payment_intent_id = None, provider_response = None, error_message = None,
      created_at = utcnow e (n_clock w), updated_at = utcnow e (Suc (n_clock w)),
      authorized_at = None, captured_at = None, refunded_at = None\<rparr>"
  define w1 where "w1 = w\<lparr>payments := payments w @ [p0], n_uuid := Suc (n_uuid w),
      n_clock := n_clock w + 2, n_session := n_session w + 2\<rparr>"
  define p1 where "p1 = p0\<lparr>status := PROCESSING, updated_at := utcnow e (n_clock w + 2)\<rparr>"
  define w2 where "w2 = w1\<lparr>payments := payments w @ [p1], n_clock := n_clock w + 3,
      n_session := n_session w + 5\<rparr>"
  define res where "res = Captured tid piid (utcnow e (n_clock w + 4)) (req_amount request)"
  define w3 where "w3 = w2\<lparr>calls := calls w @ [GwAuthorize (req_amount request)
      (req_payment_method request), GwCapture piid (req_amount request)],
      n_uuid := n_uuid w + 4, n_random := n_random w + 2, n_clock := n_clock w + 5\<rparr>"
  define p2 where "p2 = p1\<lparr>status := CAPTURED, transaction_id := Some tid,
      payment_intent_id := Some piid, provider_response := Some res,
      authorized_at := Some (utcnow e (n_clock w + 5)),
      captured_at := Some (utcnow e (n_clock w + 5)),
      updated_at := utcnow e (n_clock w + 5)\<rparr>"
  define w4 where "w4 = w3\<lparr>payments := payments w @ [p2], n_clock := n_clock w + 6,
      n_session := n_session w + 8\<rparr>"
  have absent: "pid \<notin> id' ` set (payments w)"
    using fresh_id by (simp add: pid_def)
  have c: "create_payment e (req_order_id request) (req_amount request) (req_currency request)
             (req_payment_method request) w = (Return p0, w1)"
    using create_payment_up [OF up ok fresh_id] by (simp add: p0_def w1_def pid_def)
  have ok1: "payments_ok (payments w1)"
    using ok absent by (simp add: w1_def payments_ok_snoc p0_def)
  have rows1: "filter (\<lambda>r. id' r = pid) (payments w1) = [p0]"
    using absent by (simp add: w1_def filter_id_absent p0_def)
  have u: "update_status e (id' p0) PROCESSING w1 = (Return (Some p1), w2)"
    using update_status_up [where e=e and w=w1 and pid=pid and st=PROCESSING, OF up ok1]
      rows1 absent
    by (simp add: p0_def p1_def w1_def w2_def update_where_id_append update_where_id_absent
          update_where_id_Nil update_where_id_Cons eval_nat_numeral)
  have g: "processor_process_payment e (req_amount request) (req_payment_method request)
             (case payment_method_details request of None \<Rightarrow> [] | Some d \<Rightarrow> d) w2
           = (Return res, w3)"
    using gw by (simp add: processor_process_payment_ok w2_def w1_def res_def w3_def tid_def
          piid_def eval_nat_numeral)
  have rows3: "filter (\<lambda>r. id' r = pid) (payments w3) = [p1]"
    using absent by (simp add: w3_def w2_def filter_id_absent p1_def p0_def)
  have ok3: "payments_ok (payments w @ [p2])"
    using ok absent fresh_txn fresh_pi
    by (simp add: payments_ok_snoc p2_def p1_def p0_def tid_def piid_def)
  have s: "update_payment_success e (id' p0) tid piid res w3 = (Return (Some p2), w4)"
    using update_payment_success_up [where e=e and pid=pid and tid=tid and piid=piid
              and response=res and w=w3, OF up] rows3 absent ok3
    by (simp add: p0_def p1_def p2_def w3_def w2_def w1_def w4_def update_where_id_append
          update_where_id_absent update_where_id_Nil update_where_id_Cons eval_nat_numeral)
  have first: "try_until_rebound e request p0 w1 = (Return (Some p2, Inl (tid, piid)), w4)"
    by (simp add: try_until_rebound_def thenP_def u g [unfolded res_def] s [unfolded res_def]
          returnP_def)
  have second: "try_after_rebound e (Some p2) (Inl (tid, piid)) w4
      = (Return \<lparr>success = True, resp_transaction_id = Some tid,
           resp_payment_intent_id = Some piid, resp_status = CAPTURED, error = None\<rparr>,
         snd (publish_event e ''payment.successful'' pid
                (SuccessfulData (req_order_id request) (req_amount request)
                   (req_currency request) (req_payment_method request) (Some tid) (Some piid))
                w4))"
    by (simp add: try_after_rebound_def publish_payment_successful_def thenP_publish_event
          attr_id_def steps p2_def p1_def p0_def)
  have main: "process_payment e request w
      = (Return \<lparr>success = True, resp_transaction_id = Some tid,
           resp_payment_intent_id = Some piid, resp_status = CAPTURED, error = None\<rparr>,
         snd (publish_event e ''payment.successful'' pid
                (SuccessfulData (req_order_id request) (req_amount request)
                   (req_currency request) (req_payment_method request) (Some tid) (Some piid))
                w4))"
    by (simp add: process_payment_def thenP_def tryP_def c first second returnP_def)
  have W: "w4 = w\<lparr>payments := payments w @
                        [\<lparr>id' = pid,
                          order_id = req_order_id request, amount = req_amount request,
                          currency = req_currency request,
                          payment_method = req_payment_method request, status = CAPTURED,
                          transaction_id = Some tid,
                          payment_intent_id = Some piid,
                          provider_response = Some (Captured tid piid
                            (utcnow e (n_clock w + 4)) (req_amount request)),
                          error_message = None, created_at = utcnow e (n_clock w),
                          updated_at = utcnow e (n_clock w + 5),
                          authorized_at = Some (utcnow e (n_clock w + 5)),
                          captured_at = Some (utcnow e (n_clock w + 5)),
                          refunded_at = None\<rparr>],
                      calls := calls w @ [GwAuthorize (req_amount request)
                                            (req_payment_method request),
                          GwCapture piid (req_amount request)],
                      n_uuid := n_uuid w + 4, n_random := n_random w + 2,
                      n_clock := n_clock w + 6, n_session := n_session w + 8\<rparr>"
    by (simp add: w4_def w3_def w2_def w1_def p2_def p1_def p0_def res_def)
  show ?thesis
    using main unfolding W tid_def piid_def pid_def .
qed

lemma filter_singleton_mem: "filter P t = [p] \<Longrightarrow> p \<in> set t \<and> P p"
proof -
  assume "filter P t = [p]"
  then have "p \<in> set (filter P t)" by simp
  then show ?thesis by simp
qed

lemma refunds_ok_update:
  "(\<And>r. id' (vals r) = id' r) \<Longrightarrow>
   refunds_ok (update_where_id pid vals t) rs = refunds_ok t rs"
  by (simp add: refunds_ok_def map_key_update flip: set_map)

lemma refund_payment_accepted:
  assumes up: "\<forall>k. session_fault e k = None"
    and ok: "payments_ok (payments w)"
    and rok: "refunds_ok (payments w) (refunds w)"
    and found: "filter (\<lambda>r. transaction_id r = Some (rr_transaction_id request)) (payments w)
                  = [payment]"
    and st: "status payment = CAPTURED \<or> status payment = PARTIALLY_REFUNDED"
    and gw: "random_random e (n_random w) < 95 / 100"
    and fresh_refund: "''re_'' @ take 16 (uuid4_hex e (n_uuid w)) \<notin> rf_refund_id ` set (refunds w)"
    and fresh_row: "uuid_str (uuid4_hex e (Suc (n_uuid w))) \<notin> rf_id ` set (refunds w)"
  shows "refund_payment e request w
         = (Return \<lparr>r_success = True,
              r_refund_id = Some (''re_'' @ take 16 (uuid4_hex e (n_uuid w))),
              r_amount = rr_amount request, r_error = None\<rparr>,
            snd (publish_event e ''payment.refunded'' (id' payment)
                   (RefundedData (order_id payment) (''re_'' @ take 16 (uuid4_hex e (n_uuid w)))
                      (rr_amount request) (amount payment) (currency payment))
                   (w\<lparr>payments := update_where_id (id' payment)
                        (\<lambda>r. r\<lparr>status := (if rr_amount request \<ge> amount payment
                                             then REFUNDED else PARTIALLY_REFUNDED),
                                updated_at := utcnow e (n_clock w + 1)\<rparr>) (payments w),
                      refunds := refunds w @
                        [\<lparr>rf_id = uuid_str (uuid4_hex e (Suc (n_uuid w))),
                          rf_payment_id = id' payment,
                          rf_refund_id = ''re_'' @ take 16 (uuid4_hex e (n_uuid w)),
                          rf_amount = rr_amount request, rf_reason = rr_reason request,
                          rf_created_at = utcnow e (n_clock w + 2)\<rparr>],
                      calls := calls w @ [GwRefund (rr_transaction_id request)
                                            (rr_amount request) (rr_reason request)],
                      n_uuid := n_uuid w + 2, n_random := Suc (n_random w),
                      n_clock := n_clock w + 3, n_session := n_session w + 5\<rparr>)))"
proof -
  define refid where "refid = ''re_'' @ take 16 (uuid4_hex e (n_uuid w))"
  define ns where "ns = (if rr_amount request \<ge> amount payment then REFUNDED
                          else PARTIALLY_REFUNDED)"
  define vals where "vals = (\<lambda>r::PaymentModel. r\<lparr>status := ns,
                                updated_at := utcnow e (n_clock w + 1)\<rparr>)"
  define w1 where "w1 = w\<lparr>n_session := Suc (n_session w)\<rparr>"
  define res where "res = RefundedOk refid (rr_transaction_id request) (rr_amount request)
                            (utcnow e (n_clock w))"
  define w2 where "w2 = w1\<lparr>calls := calls w @ [GwRefund (rr_transaction_id request)
                            (rr_amount request) (rr_reason request)],
                        n_uuid := Suc (n_uuid w), n_random := Suc (n_random w),
                        n_clock := Suc (n_clock w)\<rparr>"
  define w3 where "w3 = w2\<lparr>payments := update_where_id (id' payment) vals (payments w),
                        n_clock := n_clock w + 2, n_session := n_session w + 4\<rparr>"
  define row where "row = \<lparr>rf_id = uuid_str (uuid4_hex e (Suc (n_uuid w))),
                          rf_payment_id = id' payment, rf_refund_id = refid,
                          rf_amount = rr_amount request, rf_reason = rr_reason request,
                          rf_created_at = utcnow e (n_clock w + 2)\<rparr>"
  define w4 where "w4 = w3\<lparr>refunds := refunds w @ [row], n_uuid := n_uuid w + 2,
                        n_clock := n_clock w + 3, n_session := n_session w + 5\<rparr>"
  have mem: "payment \<in> set (payments w)"
    using filter_singleton_mem [OF found] by simp
  have idv: "\<And>r. id' (vals r) = id' r"
    by (simp add: vals_def)
  have l: "get_by_transaction_id e (rr_transaction_id request) w = (Return (Some payment), w1)"
    using up found by (simp add: get_by_transaction_id_def session_select_found w1_def)
  have g: "processor_refund_payment e (rr_transaction_id request) (rr_amount request)
             (rr_reason request) w1 = (Return res, w2)"
    using gw by (simp add: processor_refund_payment_ok w1_def w2_def res_def refid_def)
  have ok2: "payments_ok (payments w2)"
    using ok by (simp add: w2_def w1_def)
  have len: "length (filter (\<lambda>r. id' r = id' payment) (payments w2)) \<le> 1"
    using ok filter_id_length [of "payments w" "id' payment"]
    by (simp add: w2_def w1_def payments_ok_def)
  have u: "\<exists>x. update_status e (id' payment) ns w2 = (Return x, w3)"
    using update_status_up [where e=e and w=w2 and pid="id' payment" and st=ns, OF up ok2 len]
    by (simp add: w3_def w2_def w1_def vals_def eval_nat_numeral)
  then obtain x where u': "update_status e (id' payment) ns w2 = (Return x, w3)" ..
  have rok3: "refunds_ok (payments w3) (refunds w3)"
    using rok idv by (simp add: w3_def w2_def w1_def refunds_ok_update)
  have fk3: "id' payment \<in> id' ` set (payments w3)"
  proof -
    have "map id' (payments w3) = map id' (payments w)"
      using idv by (simp add: w3_def map_key_update)
    then have "id' ` set (payments w3) = id' ` set (payments w)"
      by (metis set_map)
    with mem show ?thesis by blast
  qed
  have fr3: "uuid_str (uuid4_hex e (n_uuid w3)) \<notin> rf_id ` set (refunds w3)"
    using fresh_row by (simp add: w3_def w2_def w1_def)
  have fi3: "refid \<notin> rf_refund_id ` set (refunds w3)"
    using fresh_refund by (simp add: w3_def w2_def w1_def refid_def)
  have a: "add_refund_record e (id' payment) refid (rr_amount request) (rr_reason request) w3
             = (Return (), w4)"
    using add_refund_record_up [where e=e and w=w3 and pid="id' payment" and refid=refid
        and amt="rr_amount request" and reason="rr_reason request", OF up rok3 fk3 fr3 fi3]
    by (simp add: w3_def w2_def w1_def w4_def row_def eval_nat_numeral)
  have main: "refund_payment e request w
      = (Return \<lparr>r_success = True, r_refund_id = Some refid,
              r_amount = rr_amount request, r_error = None\<rparr>,
         snd (publish_event e ''payment.refunded'' (id' payment)
                (RefundedData (order_id payment) refid (rr_amount request) (amount payment)
                   (currency payment)) w4))"
    using st
    by (auto simp add: refund_payment_def thenP_def tryP_def l g [unfolded res_def]
          u' [unfolded ns_def] a publish_payment_refunded_def publish_event_result
          returnP_def Let_def split: option.splits)
  have W: "w4 = w\<lparr>payments := update_where_id (id' payment)
                        (\<lambda>r. r\<lparr>status := (if rr_amount request \<ge> amount payment
                                             then REFUNDED else PARTIALLY_REFUNDED),
                                updated_at := utcnow e (n_clock w + 1)\<rparr>) (payments w),
                      refunds := refunds w @
                        [\<lparr>rf_id = uuid_str (uuid4_hex e (Suc (n_uuid w))),
                          rf_payment_id = id' payment,
                          rf_refund_id = refid,
                          rf_amount = rr_amount request, rf_reason = rr_reason request,
                          rf_created_at = utcnow e (n_clock w + 2)\<rparr>],
                      calls := calls w @ [GwRefund (rr_transaction_id request)
                                            (rr_amount request) (rr_reason request)],
                      n_uuid := n_uuid w + 2, n_random := Suc (n_random w),
                      n_clock := n_clock w + 3, n_session := n_session w + 5\<rparr>"
    by (simp add: w4_def w3_def w2_def w1_def row_def vals_def ns_def)
  show ?thesis
    using main unfolding W refid_def .
qed

section \<open>What an operation can do to the store, whatever fails\<close>

lemma session_select_effect:
  assumes "session_select e cond w = (out, w')"
  shows "payments w' = payments w \<and> refunds w' = refunds w \<and> calls w' = calls w \<and>
         delivered w' = delivered w \<and>
         (\<forall>p. out = Return (Some p) \<longrightarrow> filter cond (payments w) = [p])"
  using assms
  by (auto simp: session_select_def thenP_def session_call_def getP_def scalar_one_or_none_def
        returnP_def raiseP_def to_domain_def split: option.splits list.splits)

lemma update_then_get_effect:
  assumes "thenP (session_execute_update e (update_where_id pid vals)) (\<lambda>t.
             thenP (session_commit_payments e t) (\<lambda>_. get_by_id e pid)) w = (out, w')"
  shows "refunds w' = refunds w \<and> calls w' = calls w \<and> delivered w' = delivered w \<and>
         (payments w' = payments w \<and> (\<forall>x. out \<noteq> Return x)
          \<or> payments w' = update_where_id pid vals (payments w) \<and> payments_ok (payments w'))"
  using assms
  by (auto simp: session_execute_update_def session_commit_payments_def get_by_id_def
        session_select_def thenP_def session_call_def getP_def scalar_one_or_none_def
        returnP_def raiseP_def modifyP_def integrity_def
        split: option.splits list.splits if_splits)

lemma update_status_effect:
  assumes "update_status e pid st w = (out, w')"
  shows "refunds w' = refunds w \<and> calls w' = calls w \<and> delivered w' = delivered w \<and>
         (payments w' = payments w \<and> (\<forall>x. out \<noteq> Return x)
          \<or> payments w' = update_where_id pid
                (\<lambda>r. r\<lparr>status := st, updated_at := utcnow e (n_clock w)\<rparr>) (payments w)
             \<and> payments_ok (payments w'))"
  using assms update_then_get_effect [of e pid
      "\<lambda>r. r\<lparr>status := st, updated_at := utcnow e (n_clock w)\<rparr>"
      "w\<lparr>n_clock := Suc (n_clock w)\<rparr>" out w']
  by (simp add: update_status_def thenP_utcnow)

lemma update_payment_failure_effect:
  assumes "update_payment_failure e pid msg response w = (out, w')"
  shows "refunds w' = refunds w \<and> calls w' = calls w \<and> delivered w' = delivered w \<and>
         (payments w' = payments w \<and> (\<forall>x. out \<noteq> Return x)
          \<or> payments w' = update_where_id pid
                (\<lambda>r. r\<lparr>status := FAILED, error_message := Some msg,
                   provider_response := response, updated_at := utcnow e (n_clock w)\<rparr>)
                (payments w)
             \<and> payments_ok (payments w'))"
  using assms update_then_get_effect [of e pid
      "\<lambda>r. r\<lparr>status := FAILED, error_message := Some msg,
                   provider_response := response, updated_at := utcnow e (n_clock w)\<rparr>"
      "w\<lparr>n_clock := Suc (n_clock w)\<rparr>" out w']
  by (simp add: update_payment_failure_def thenP_utcnow)

lemma update_payment_success_effect:
  assumes "update_payment_success e pid tid piid response w = (out, w')"
  shows "refunds w' = refunds w \<and> calls w' = calls w \<and> delivered w' = delivered w \<and>
         (payments w' = payments w \<and> (\<forall>x. out \<noteq> Return x)
          \<or> payments w' = update_where_id pid
                (\<lambda>r. r\<lparr>status := CAPTURED, transaction_id := Some tid,
                  payment_intent_id := Some piid, provider_response := Some response,
                  authorized_at := Some (utcnow e (n_clock w)),
                  captured_at := Some (utcnow e (n_clock w)),
                  updated_at := utcnow e (n_clock w)\<rparr>)
                (payments w)
             \<and> payments_ok (payments w'))"
  using assms update_then_get_effect [of e pid
      "\<lambda>r. r\<lparr>status := CAPTURED, transaction_id := Some tid,
                  payment_intent_id := Some piid, provider_response := Some response,
                  authorized_at := Some (utcnow e (n_clock w)),
                  captured_at := Some (utcnow e (n_clock w)),
                  updated_at := utcnow e (n_clock w)\<rparr>"
      "w\<lparr>n_clock := Suc (n_clock w)\<rparr>" out w']
  by (simp add: update_payment_success_def thenP_utcnow)

lemma add_refund_record_effect:
  assumes "add_refund_record e pid refid amt reason w = (out, w')"
  shows "payments w' = payments w \<and> calls w' = calls w \<and> delivered w' = delivered w \<and>
         (refunds w' = refunds w
          \<or> (\<exists>x. refunds w' = refunds w @ [x] \<and> rf_payment_id x = pid \<and> rf_amount x = amt
                 \<and> rf_refund_id x = refid))"
  using assms
  by (auto simp: add_refund_record_def Let_def session_commit_refunds_def thenP_def
        session_call_def integrity_def uuid4_def datetime_utcnow_def getP_def returnP_def
        raiseP_def modifyP_def split: option.splits if_splits)

lemma create_payment_effect:
  assumes "create_payment e oid amt cur method w = (out, w')"
  shows "refunds w' = refunds w \<and> calls w' = calls w \<and> delivered w' = delivered w \<and>
         (payments w' = payments w \<and> (\<forall>x. out \<noteq> Return x)
          \<or> (\<exists>p. payments w' = payments w @ [p] \<and> refunded_at p = None \<and> status p = PENDING
                 \<and> payments_ok (payments w') \<and> (\<forall>x. out = Return x \<longrightarrow> x = p)))"
  using assms
  by (auto simp: create_payment_def Let_def session_commit_payments_def thenP_def
        session_call_def integrity_def to_domain_def uuid4_def datetime_utcnow_def getP_def
        returnP_def raiseP_def modifyP_def split: option.splits if_splits)

section \<open>What a refund request can do to the store, whatever fails\<close>

lemma publish_event_frame:
  "payments (snd (publish_event e etype pid d w)) = payments w"
  "refunds (snd (publish_event e etype pid d w)) = refunds w"
  by (simp_all add: publish_event_result split: option.splits)

lemma refund_payment_effect:
  assumes "refund_payment e request w = (out, w')"
  shows "(payments w' = payments w \<and> refunds w' = refunds w) \<or>
         (\<exists>payment t.
            filter (\<lambda>r. transaction_id r = Some (rr_transaction_id request)) (payments w)
              = [payment] \<and>
            (status payment = CAPTURED \<or> status payment = PARTIALLY_REFUNDED) \<and>
            payments w' = update_where_id (id' payment)
               (\<lambda>r. r\<lparr>status := (if amount payment \<le> rr_amount request then REFUNDED
                                    else PARTIALLY_REFUNDED), updated_at := t\<rparr>) (payments w) \<and>
            (refunds w' = refunds w \<or>
             (\<exists>x. refunds w' = refunds w @ [x] \<and> rf_payment_id x = id' payment \<and>
                  rf_amount x = rr_amount request)))"
proof -
  obtain o1 w1 where l: "get_by_transaction_id e (rr_transaction_id request) w = (o1, w1)"
    by fastforce
  note le = session_select_effect [OF l [unfolded get_by_transaction_id_def]]
  show ?thesis
  proof (cases "\<exists>payment. o1 = Return (Some payment) \<and>
                  (status payment = CAPTURED \<or> status payment = PARTIALLY_REFUNDED)")
    case False
    then have "w' = w1"
      using assms l
      by (cases o1) (auto simp: refund_payment_def thenP_def returnP_def split: option.splits)
    with le show ?thesis by simp
  next
    case True
    then obtain payment where o1: "o1 = Return (Some payment)"
      and st: "status payment = CAPTURED \<or> status payment = PARTIALLY_REFUNDED"
      by blast
    have found: "filter (\<lambda>r. transaction_id r = Some (rr_transaction_id request)) (payments w)
                   = [payment]"
      using le o1 by simp
    obtain o2 w2 where g: "processor_refund_payment e (rr_transaction_id request)
        (rr_amount request) (rr_reason request) w1 = (o2, w2)"
      by fastforce
    note ge = processor_refund_frame [OF g]
    define ns where "ns = (if amount payment \<le> rr_amount request then REFUNDED
                           else PARTIALLY_REFUNDED)"
    obtain o3 w3 where u: "update_status e (id' payment) ns w2 = (o3, w3)"
      by fastforce
    note ue = update_status_effect [OF u]
    show ?thesis
    proof (cases "\<exists>result. o2 = Return result \<and> getitem_success result")
      case False
      then have "w' = w2"
        using assms l o1 st g
        by (cases o2) (auto simp: refund_payment_def thenP_def tryP_def returnP_def)
      with le ge show ?thesis by simp
    next
      case True
      then obtain result where o2: "o2 = Return result" and ok: "getitem_success result"
        by blast
      show ?thesis
      proof (cases "\<exists>x refund_id. o3 = Return x \<and> result = RefundedOk refund_id
                       (rr_transaction_id request) (rr_amount request) (utcnow e (n_clock w1))")
        case False
        have "w' = w3"
          using assms l o1 st g o2 ok u False
          apply (cases o3; cases result)
          apply (auto simp: refund_payment_def thenP_def tryP_def returnP_def Let_def ns_def
              key_error_def raiseP_def processor_refund_payment_def log_call_def modifyP_def
              simulate_processing_def should_succeed_def uuid4_def datetime_utcnow_def
              split: if_splits)
          done
        with le ge ue found st show ?thesis
          by (auto simp: ns_def)
      next
        case True
        then obtain x refund_id where o3: "o3 = Return x"
          and res: "result = RefundedOk refund_id (rr_transaction_id request)
                      (rr_amount request) (utcnow e (n_clock w1))"
          by blast
        obtain o4 w4 where a: "add_refund_record e (id' payment) refund_id (rr_amount request)
            (rr_reason request) w3 = (o4, w4)"
          by fastforce
        note ae = add_refund_record_effect [OF a]
        have "payments w' = payments w4 \<and> refunds w' = refunds w4"
          using assms l o1 st g o2 res u o3 a
          by (cases o4)
             (auto simp: refund_payment_def thenP_def tryP_def returnP_def Let_def ns_def
                publish_payment_refunded_def publish_event_result split: option.splits)
        with le ge ue ae found st o3 show ?thesis
          by (auto simp: ns_def)
      qed
    qed
  qed
qed

lemma full_refund_last_iff:
  "full_refund_last w \<longleftrightarrow>
     distinct (map id' (payments w)) \<and>
     (\<forall>q \<in> set (payments w).
        (\<forall>r \<in> set (butlast (refunds_of w (id' q))). rf_amount r < amount q) \<and>
        (status q = REFUNDED \<or> (\<forall>r \<in> set (refunds_of w (id' q)). rf_amount r < amount q)))"
  by (simp add: full_refund_last_def list_all_iff)

lemma same_id_same_row:
  "distinct (map id' t) \<Longrightarrow> q \<in> set t \<Longrightarrow> p \<in> set t \<Longrightarrow> id' q = id' p \<Longrightarrow> q = p"
  by (meson distinct_map inj_onD)

lemma refund_payment_keeps_full_refund_last:
  assumes inv: "full_refund_last w"
  shows "full_refund_last (snd (refund_payment e request w))"
proof -
  obtain out w' where run: "refund_payment e request w = (out, w')"
    by fastforce
  note inv' = inv [unfolded full_refund_last_iff]
  from refund_payment_effect [OF run]
  consider (same) "payments w' = payments w" "refunds w' = refunds w"
    | (changed) payment t where
        "filter (\<lambda>r. transaction_id r = Some (rr_transaction_id request)) (payments w)
           = [payment]"
        "status payment = CAPTURED \<or> status payment = PARTIALLY_REFUNDED"
        "payments w' = update_where_id (id' payment)
               (\<lambda>r. r\<lparr>status := (if amount payment \<le> rr_amount request then REFUNDED
                                    else PARTIALLY_REFUNDED), updated_at := t\<rparr>) (payments w)"
        "refunds w' = refunds w \<or>
             (\<exists>x. refunds w' = refunds w @ [x] \<and> rf_payment_id x = id' payment \<and>
                  rf_amount x = rr_amount request)"
    by blast
  then have "full_refund_last w'"
  proof cases
    case same
    then show ?thesis
      using inv by (simp add: full_refund_last_iff refunds_of_def)
  next
    case (changed payment t)
    note found = changed(1) and st = changed(2) and pay = changed(3) and ref = changed(4)
    define ns where "ns = (if amount payment \<le> rr_amount request then REFUNDED
                           else PARTIALLY_REFUNDED)"
    define vals where "vals = (\<lambda>r::PaymentModel. r\<lparr>status := ns, updated_at := t\<rparr>)"
    have pay': "payments w' = update_where_id (id' payment) vals (payments w)"
      using pay by (simp add: vals_def ns_def)
    have mem: "payment \<in> set (payments w)"
      using filter_singleton_mem [OF found] by simp
    have dist: "distinct (map id' (payments w))"
      using inv' by simp
    have old: "\<forall>r \<in> set (refunds_of w (id' payment)). rf_amount r < amount payment"
      using inv' mem st by auto
    have others: "\<And>i. i \<noteq> id' payment \<Longrightarrow> refunds_of w' i = refunds_of w i"
      using ref by (auto simp: refunds_of_def)
    have own: "refunds_of w' (id' payment) = refunds_of w (id' payment) \<or>
               (\<exists>x. refunds_of w' (id' payment) = refunds_of w (id' payment) @ [x] \<and>
                    rf_amount x = rr_amount request)"
      using ref by (auto simp: refunds_of_def)
    have dist': "distinct (map id' (payments w'))"
      using dist by (simp add: pay' map_key_update vals_def)
    have rows: "\<forall>q' \<in> set (payments w').
        (\<forall>r \<in> set (butlast (refunds_of w' (id' q'))). rf_amount r < amount q') \<and>
        (status q' = REFUNDED \<or> (\<forall>r \<in> set (refunds_of w' (id' q')). rf_amount r < amount q'))"
    proof
      fix q'
      assume "q' \<in> set (payments w')"
      then obtain q where q: "q \<in> set (payments w)"
        and q': "q' = (if id' q = id' payment then vals q else q)"
        by (auto simp: pay' update_where_id_def)
      show "(\<forall>r \<in> set (butlast (refunds_of w' (id' q'))). rf_amount r < amount q') \<and>
        (status q' = REFUNDED \<or> (\<forall>r \<in> set (refunds_of w' (id' q')). rf_amount r < amount q'))"
      proof (cases "id' q = id' payment")
        case False
        then have "q' = q" "refunds_of w' (id' q') = refunds_of w (id' q)"
          using q' others by simp_all
        then show ?thesis using inv' q by simp
      next
        case True
        then have qp: "q = payment"
          using same_id_same_row [OF dist q mem] by simp
        then have q'v: "q' = vals payment" using q' by simp
        then have f: "id' q' = id' payment" "amount q' = amount payment" "status q' = ns"
          by (simp_all add: vals_def)
        from own show ?thesis
        proof
          assume "refunds_of w' (id' payment) = refunds_of w (id' payment)"
          then show ?thesis
            using old f by (auto dest: in_set_butlastD)
        next
          assume "\<exists>x. refunds_of w' (id' payment) = refunds_of w (id' payment) @ [x] \<and>
                    rf_amount x = rr_amount request"
          then obtain x where x: "refunds_of w' (id' payment) = refunds_of w (id' payment) @ [x]"
            "rf_amount x = rr_amount request"
            by blast
          show ?thesis
            using old f x by (auto simp: ns_def split: if_splits)
        qed
      qed
    qed
    show ?thesis
      using dist' rows by (simp add: full_refund_last_iff)
  qed
  then show ?thesis by (simp add: run)
qed

lemma run_refunds_keeps_full_refund_last:
  "full_refund_last w \<Longrightarrow> full_refund_last (run_refunds e requests w)"
  by (induction requests arbitrary: w) (simp_all add: refund_payment_keeps_full_refund_last)

section \<open>Columns no operation assigns\<close>

lemma keepsI: "(\<And>w. R w (snd (m w))) \<Longrightarrow> keeps R m"
  by (simp add: keeps_def)

lemma keepsD: "keeps R m \<Longrightarrow> R w (snd (m w))"
  by (simp add: keeps_def)

lemma keeps_returnP: "reflp R \<Longrightarrow> keeps R (returnP x)"
  by (simp add: keeps_def returnP_def reflpD)

lemma keeps_raiseP: "reflp R \<Longrightarrow> keeps R (raiseP err)"
  by (simp add: keeps_def raiseP_def reflpD)

lemma keeps_thenP:
  assumes "transp R" and "keeps R m" and "\<And>x. keeps R (f x)"
  shows "keeps R (thenP m f)"
proof (rule keepsI)
  fix w
  obtain out w1 where m: "m w = (out, w1)" by fastforce
  have 1: "R w w1" using keepsD [OF assms(2), of w] m by simp
  show "R w (snd (thenP m f w))"
  proof (cases out)
    case (Raise err)
    then show ?thesis using 1 m by (simp add: thenP_def)
  next
    case (Return x)
    have "R w1 (snd (f x w1))" by (rule keepsD [OF assms(3)])
    with 1 have "R w (snd (f x w1))" by (rule transpD [OF assms(1)])
    then show ?thesis using m Return by (simp add: thenP_def)
  qed
qed

lemma keeps_tryP:
  assumes "transp R" and "keeps R m" and "\<And>err. keeps R (h err)"
  shows "keeps R (tryP m h)"
proof (rule keepsI)
  fix w
  obtain out w1 where m: "m w = (out, w1)" by fastforce
  have 1: "R w w1" using keepsD [OF assms(2), of w] m by simp
  show "R w (snd (tryP m h w))"
  proof (cases out)
    case (Return x)
    then show ?thesis using 1 m by (simp add: tryP_def)
  next
    case (Raise err)
    have "R w1 (snd (h err w1))" by (rule keepsD [OF assms(3)])
    with 1 have "R w (snd (h err w1))" by (rule transpD [OF assms(1)])
    then show ?thesis using m Raise by (simp add: tryP_def)
  qed
qed

lemma keeps_getitem:
  "reflp R \<Longrightarrow> keeps R (getitem_transaction_id r)"
  "reflp R \<Longrightarrow> keeps R (getitem_payment_intent_id r)"
  "reflp R \<Longrightarrow> keeps R (getitem_refund_id r)"
  "reflp R \<Longrightarrow> keeps R (attr_id p)"
  by (cases r; simp add: keeps_returnP keeps_raiseP key_error_def attr_id_def attr_of_none_def
        split: option.splits)+

lemma reflp_refunded_at_unassigned: "reflp refunded_at_unassigned"
  by (rule reflpI) (simp add: refunded_at_unassigned_def)

lemma transp_refunded_at_unassigned: "transp refunded_at_unassigned"
proof (rule transpI)
  fix x y z
  assume "refunded_at_unassigned x y" "refunded_at_unassigned y z"
  then obtain k l where
    "map refunded_at (payments y) = map refunded_at (payments x) @ replicate k None"
    "map refunded_at (payments z) = map refunded_at (payments y) @ replicate l None"
    by (auto simp: refunded_at_unassigned_def)
  then have "map refunded_at (payments z)
               = map refunded_at (payments x) @ replicate (k + l) None"
    by (simp add: replicate_add)
  then show "refunded_at_unassigned x z"
    unfolding refunded_at_unassigned_def by blast
qed

lemma same_payments_unassigned: "payments w' = payments w \<Longrightarrow> refunded_at_unassigned w w'"
  by (simp add: refunded_at_unassigned_def)

lemma updated_payments_unassigned:
  assumes "\<And>r. refunded_at (vals r) = refunded_at r"
    and "payments w' = update_where_id pid vals (payments w)"
  shows "refunded_at_unassigned w w'"
  using assms by (simp add: refunded_at_unassigned_def map_key_update)

lemma keeps_unassigned_update_status:
  "keeps refunded_at_unassigned (update_status e pid st)"
proof (rule keepsI)
  fix w
  obtain out w' where r: "update_status e pid st w = (out, w')" by fastforce
  from update_status_effect [OF r] show
    "refunded_at_unassigned w (snd (update_status e pid st w))"
    by (auto simp: r refunded_at_unassigned_def map_key_update)
qed

lemma keeps_unassigned_update_payment_success:
  "keeps refunded_at_unassigned (update_payment_success e pid tid piid response)"
proof (rule keepsI)
  fix w
  obtain out w' where r: "update_payment_success e pid tid piid response w = (out, w')"
    by fastforce
  from update_payment_success_effect [OF r] show
    "refunded_at_unassigned w (snd (update_payment_success e pid tid piid response w))"
    by (auto simp: r refunded_at_unassigned_def map_key_update)
qed

lemma keeps_unassigned_update_payment_failure:
  "keeps refunded_at_unassigned (update_payment_failure e pid msg response)"
proof (rule keepsI)
  fix w
  obtain out w' where r: "update_payment_failure e pid msg response w = (out, w')"
    by fastforce
  from update_payment_failure_effect [OF r] show
    "refunded_at_unassigned w (snd (update_payment_failure e pid msg response w))"
    by (auto simp: r refunded_at_unassigned_def map_key_update)
qed

lemma keeps_unassigned_create_payment:
  "keeps refunded_at_unassigned (create_payment e oid amt cur method)"
proof (rule keepsI)
  fix w
  obtain out w' where r: "create_payment e oid amt cur method w = (out, w')" by fastforce
  from create_payment_effect [OF r] have "refunded_at_unassigned w w'"
  proof (elim conjE disjE exE)
    assume "payments w' = payments w"
    then show ?thesis by (rule same_payments_unassigned)
  next
    fix p
    assume "payments w' = payments w @ [p]" "refunded_at p = None"
    then have "map refunded_at (payments w') = map refunded_at (payments w) @ replicate 1 None"
      by simp
    then show ?thesis unfolding refunded_at_unassigned_def by blast
  qed
  then show "refunded_at_unassigned w (snd (create_payment e oid amt cur method w))"
    by (simp add: r)
qed

lemma keeps_unassigned_add_refund_record:
  "keeps refunded_at_unassigned (add_refund_record e pid refid amt reason)"
proof (rule keepsI)
  fix w
  obtain out w' where r: "add_refund_record e pid refid amt reason w = (out, w')" by fastforce
  from add_refund_record_effect [OF r] show
    "refunded_at_unassigned w (snd (add_refund_record e pid refid amt reason w))"
    by (auto simp: r intro: same_payments_unassigned)
qed

lemma processor_process_payment_frame:
  "payments (snd (processor_process_payment e amt method details w)) = payments w"
  by (simp add: processor_process_payment_def authorize_payment_def capture_payment_def
        thenP_def log_call_def modifyP_def simulate_processing_def returnP_def
        should_succeed_def uuid4_def datetime_utcnow_def random_choice_of_def)

lemma keeps_unassigned_publishers:
  "keeps refunded_at_unassigned (publish_payment_successful e payment)"
  "keeps refunded_at_unassigned (publish_payment_failed e payment msg)"
  by (auto simp: keeps_def publish_payment_successful_def publish_payment_failed_def
        attr_of_none_def raiseP_def publish_event_frame
        intro!: same_payments_unassigned split: option.splits)

lemma keeps_unassigned_except_block:
  "keeps refunded_at_unassigned (except_block e payment err)"
  unfolding except_block_def
  by (intro keeps_thenP keeps_getitem keeps_returnP keeps_unassigned_update_payment_failure
        transp_refunded_at_unassigned reflp_refunded_at_unassigned)

lemma keeps_unassigned_try_after_rebound:
  "keeps refunded_at_unassigned (try_after_rebound e payment' branch)"
  unfolding try_after_rebound_def
  by (cases branch)
     (auto intro!: keeps_thenP keeps_getitem keeps_returnP keeps_unassigned_publishers
        transp_refunded_at_unassigned reflp_refunded_at_unassigned)

lemma keeps_unassigned_try_until_rebound:
  "keeps refunded_at_unassigned (try_until_rebound e request payment)"
  unfolding try_until_rebound_def Let_def
  by (auto intro!: keeps_thenP keeps_getitem keeps_returnP keeps_unassigned_update_status
        keeps_unassigned_update_payment_success keeps_unassigned_update_payment_failure
        transp_refunded_at_unassigned reflp_refunded_at_unassigned
        keepsI [of refunded_at_unassigned "processor_process_payment _ _ _ _"]
        same_payments_unassigned processor_process_payment_frame)

lemma keeps_unassigned_process_payment:
  "keeps refunded_at_unassigned (process_payment e request)"
  unfolding process_payment_def
  by (auto intro!: keeps_thenP keeps_tryP keeps_returnP keeps_unassigned_create_payment
        keeps_unassigned_try_until_rebound keeps_unassigned_try_after_rebound
        keeps_unassigned_except_block
        transp_refunded_at_unassigned reflp_refunded_at_unassigned split: sum.splits)

lemma refund_payment_untouched:
  "map untouched_by_refund (payments (snd (refund_payment e request w)))
     = map untouched_by_refund (payments w)"
proof -
  obtain out w' where r: "refund_payment e request w = (out, w')" by fastforce
  from refund_payment_effect [OF r]
  have "map untouched_by_refund (payments w') = map untouched_by_refund (payments w)"
    by (auto simp: update_where_id_def untouched_by_refund_def)
  then show ?thesis by (simp add: r)
qed

section \<open>Processing a payment, whatever fails\<close>









lemma processor_process_payment_returns:
  "\<exists>result. fst (processor_process_payment e amt method details w) = Return result"
  by (simp add: processor_process_payment_def authorize_payment_def capture_payment_def
        thenP_def log_call_def modifyP_def simulate_processing_def returnP_def
        should_succeed_def uuid4_def datetime_utcnow_def random_choice_of_def)











section \<open>The scenario of order ORD-1\<close>

lemma test_uuid4_hex_simps:
  "test_uuid4_hex 0 = ''00000000000000000000000000000000''"
  "test_uuid4_hex (Suc 0) = ''01000000000000000000000000000000''"
  "test_uuid4_hex 1 = ''01000000000000000000000000000000''"
  "test_uuid4_hex 2 = ''02000000000000000000000000000000''"
  "test_uuid4_hex 3 = ''03000000000000000000000000000000''"
  "test_uuid4_hex 4 = ''04000000000000000000000000000000''"
  "test_uuid4_hex 5 = ''05000000000000000000000000000000''"
  "test_uuid4_hex 6 = ''06000000000000000000000000000000''"
  "test_uuid4_hex 7 = ''07000000000000000000000000000000''"
  "test_uuid4_hex 8 = ''08000000000000000000000000000000''"
  "test_uuid4_hex 9 = ''09000000000000000000000000000000''"
  by (simp_all add: test_uuid4_hex_def hex_digit_def)

lemma test_env_simps:
  "uuid4_hex test_env = test_uuid4_hex"
  "random_random test_env k = 0"
  "utcnow test_env k = k"
  "session_fault test_env k = None"
  "send_fault test_env k = None"
  "format_status test_env = PaymentStatus_value"
  by (simp_all add: test_env_def)

lemma scenario_capture:
  "process_payment test_env ord1_request fresh_world
     = (Return \<lparr>success = True, resp_transaction_id = Some ''txn_0300000000000000'',
          resp_payment_intent_id = Some ''pi_010000000000000000000000'',
          resp_status = CAPTURED, error = None\<rparr>, captured_world)"
proof -
  have up: "\<forall>k. session_fault test_env k = None" by (simp add: test_env_simps)
  have ok: "payments_ok (payments fresh_world)" by (simp add: fresh_world_def payments_ok_def)
  have g1: "random_random test_env (n_random fresh_world) < 95 / 100"
    by (simp add: test_env_simps)
  have g2: "random_random test_env (Suc (n_random fresh_world)) < 95 / 100"
    by (simp add: test_env_simps)
  have f1: "uuid_str (uuid4_hex test_env (n_uuid fresh_world)) \<notin> id' ` set (payments fresh_world)"
    by (simp add: fresh_world_def)
  have f2: "Some (''txn_'' @ take 16 (uuid4_hex test_env (n_uuid fresh_world + 3)))
              \<notin> transaction_id ` set (payments fresh_world)"
    by (simp add: fresh_world_def)
  have f3: "Some (''pi_'' @ take 24 (uuid4_hex test_env (Suc (n_uuid fresh_world))))
              \<notin> payment_intent_id ` set (payments fresh_world)"
    by (simp add: fresh_world_def)
  show ?thesis
    unfolding process_payment_captured [OF up ok g1 g2 f1 f2 f3]
    by (simp add: publish_event_result fresh_world_def test_env_simps test_uuid4_hex_simps
          uuid_str_def ord1_request_def captured_world_def captured_payment_def)
qed

lemma captured_world_ok:
  "payments_ok (payments captured_world)" "refunds_ok (payments captured_world) (refunds captured_world)"
  "filter (\<lambda>r. transaction_id r = Some (rr_transaction_id (refund_of a))) (payments captured_world)
     = [captured_payment]"
  by (simp_all add: captured_world_def captured_payment_def payments_ok_def refunds_ok_def
        refund_of_def)

lemma refund_payment_accepted_fields:
  assumes up: "\<forall>k. session_fault e k = None"
    and ok: "payments_ok (payments w)"
    and rok: "refunds_ok (payments w) (refunds w)"
    and found: "filter (\<lambda>r. transaction_id r = Some (rr_transaction_id request)) (payments w)
                  = [payment]"
    and st: "status payment = CAPTURED \<or> status payment = PARTIALLY_REFUNDED"
    and gw: "random_random e (n_random w) < 95 / 100"
    and fresh_refund: "''re_'' @ take 16 (uuid4_hex e (n_uuid w)) \<notin> rf_refund_id ` set (refunds w)"
    and fresh_row: "uuid_str (uuid4_hex e (Suc (n_uuid w))) \<notin> rf_id ` set (refunds w)"
  shows "fst (refund_payment e request w)
           = Return \<lparr>r_success = True,
               r_refund_id = Some (''re_'' @ take 16 (uuid4_hex e (n_uuid w))),
               r_amount = rr_amount request, r_error = None\<rparr>"
    and "payments (snd (refund_payment e request w)) = update_where_id (id' payment)
            (\<lambda>r. r\<lparr>status := (if rr_amount request \<ge> amount payment
                                 then REFUNDED else PARTIALLY_REFUNDED),
                    updated_at := utcnow e (n_clock w + 1)\<rparr>) (payments w)"
    and "refunds (snd (refund_payment e request w)) = refunds w @
            [\<lparr>rf_id = uuid_str (uuid4_hex e (Suc (n_uuid w))), rf_payment_id = id' payment,
              rf_refund_id = ''re_'' @ take 16 (uuid4_hex e (n_uuid w)),
              rf_amount = rr_amount request,
              rf_reason = rr_reason request, rf_created_at = utcnow e (n_clock w + 2)\<rparr>]"
    and "n_uuid (snd (refund_payment e request w)) = n_uuid w + 2"
    and "n_random (snd (refund_payment e request w)) = Suc (n_random w)"
    and "GwRefund (rr_transaction_id request) (rr_amount request) (rr_reason request)
           \<in> set (calls (snd (refund_payment e request w)))"
  by (simp_all add: refund_payment_accepted [OF assms] publish_event_result
        split: option.splits)

text \<open>The store of the scenario after refunds of the given amounts, each below 100.\<close>

lemma scenario_partial_refund:
  assumes w: "payments w = [captured_payment\<lparr>status := s, updated_at := u\<rparr>]"
    and s: "s = CAPTURED \<or> s = PARTIALLY_REFUNDED"
    and rok: "refunds_ok (payments w) (refunds w)"
    and fresh_refund: "''re_'' @ take 16 (test_uuid4_hex (n_uuid w)) \<notin> rf_refund_id ` set (refunds w)"
    and fresh_row: "uuid_str (test_uuid4_hex (Suc (n_uuid w))) \<notin> rf_id ` set (refunds w)"
  shows "fst (refund_payment test_env (refund_of a) w)
           = Return \<lparr>r_success = True,
               r_refund_id = Some (''re_'' @ take 16 (test_uuid4_hex (n_uuid w))),
               r_amount = a, r_error = None\<rparr>"
    and "payments (snd (refund_payment test_env (refund_of a) w))
           = [captured_payment\<lparr>status := (if a < 100 then PARTIALLY_REFUNDED else REFUNDED),
                updated_at := n_clock w + 1\<rparr>]"
    and "refunds (snd (refund_payment test_env (refund_of a) w)) = refunds w @
            [\<lparr>rf_id = uuid_str (test_uuid4_hex (Suc (n_uuid w))),
              rf_payment_id = ''00000000-0000-0000-0000-000000000000'',
              rf_refund_id = ''re_'' @ take 16 (test_uuid4_hex (n_uuid w)),
              rf_amount = a, rf_reason = None, rf_created_at = n_clock w + 2\<rparr>]"
    and "n_uuid (snd (refund_payment test_env (refund_of a) w)) = n_uuid w + 2"
    and "GwRefund ''txn_0300000000000000'' a None
           \<in> set (calls (snd (refund_payment test_env (refund_of a) w)))"
proof -
  let ?p = "captured_payment\<lparr>status := s, updated_at := u\<rparr>"
  have up: "\<forall>k. session_fault test_env k = None" by (simp add: test_env_simps)
  have ok: "payments_ok (payments w)" by (simp add: w payments_ok_def captured_payment_def)
  have found: "filter (\<lambda>r. transaction_id r = Some (rr_transaction_id (refund_of a)))
                 (payments w) = [?p]"
    by (simp add: w captured_payment_def refund_of_def)
  have st: "status ?p = CAPTURED \<or> status ?p = PARTIALLY_REFUNDED"
    using s by simp
  have gw: "random_random test_env (n_random w) < 95 / 100" by (simp add: test_env_simps)
  have f1: "''re_'' @ take 16 (uuid4_hex test_env (n_uuid w)) \<notin> rf_refund_id ` set (refunds w)"
    using fresh_refund by (simp add: test_env_simps)
  have f2: "uuid_str (uuid4_hex test_env (Suc (n_uuid w))) \<notin> rf_id ` set (refunds w)"
    using fresh_row by (simp add: test_env_simps)
  note r = refund_payment_accepted_fields [OF up ok rok found st gw f1 f2]
  show "fst (refund_payment test_env (refund_of a) w)
           = Return \<lparr>r_success = True,
               r_refund_id = Some (''re_'' @ take 16 (test_uuid4_hex (n_uuid w))),
               r_amount = a, r_error = None\<rparr>"
    using r(1) by (simp add: test_env_simps refund_of_def)
  show "payments (snd (refund_payment test_env (refund_of a) w))
           = [captured_payment\<lparr>status := (if a < 100 then PARTIALLY_REFUNDED else REFUNDED),
                updated_at := n_clock w + 1\<rparr>]"
    using r(2) by (auto simp add: w test_env_simps refund_of_def update_where_id_Cons
          update_where_id_Nil captured_payment_def)
  show "refunds (snd (refund_payment test_env (refund_of a) w)) = refunds w @
            [\<lparr>rf_id = uuid_str (test_uuid4_hex (Suc (n_uuid w))),
              rf_payment_id = ''00000000-0000-0000-0000-000000000000'',
              rf_refund_id = ''re_'' @ take 16 (test_uuid4_hex (n_uuid w)),
              rf_amount = a, rf_reason = None, rf_created_at = n_clock w + 2\<rparr>]"
    using r(3) by (simp add: test_env_simps refund_of_def captured_payment_def)
  show "n_uuid (snd (refund_payment test_env (refund_of a) w)) = n_uuid w + 2"
    using r(4) .
  show "GwRefund ''txn_0300000000000000'' a None
           \<in> set (calls (snd (refund_payment test_env (refund_of a) w)))"
    using r(6) by (simp add: refund_of_def)
qed

lemma scenario_first_refund:
  fixes a :: amount
  defines "w2 \<equiv> snd (refund_payment test_env (refund_of a) captured_world)"
  shows "fst (refund_payment test_env (refund_of a) captured_world)
           = Return \<lparr>r_success = True, r_refund_id = Some ''re_0400000000000000'',
               r_amount = a, r_error = None\<rparr>"
    and "payments w2 = [captured_payment\<lparr>status := (if a < 100 then PARTIALLY_REFUNDED
                                                      else REFUNDED), updated_at := 8\<rparr>]"
    and "map rf_amount (refunds w2) = [a]"
    and "map rf_refund_id (refunds w2) = [''re_0400000000000000'']"
    and "map rf_id (refunds w2) = [''05000000-0000-0000-0000-000000000000'']"
    and "map rf_payment_id (refunds w2) = [''00000000-0000-0000-0000-000000000000'']"
    and "n_uuid w2 = 6"
    and "GwRefund ''txn_0300000000000000'' a None \<in> set (calls w2)"
proof -
  have p: "payments captured_world = [captured_payment\<lparr>status := CAPTURED, updated_at := 5\<rparr>]"
    by (simp add: captured_world_def captured_payment_def)
  have f1: "''re_'' @ take 16 (test_uuid4_hex (n_uuid captured_world))
              \<notin> rf_refund_id ` set (refunds captured_world)"
    by (simp add: captured_world_def)
  have f2: "uuid_str (test_uuid4_hex (Suc (n_uuid captured_world)))
              \<notin> rf_id ` set (refunds captured_world)"
    by (simp add: captured_world_def)
  note r = scenario_partial_refund [OF p disjI1 [OF refl] captured_world_ok(2) f1 f2, of a]
  have n: "n_uuid captured_world = 4" "n_clock captured_world = 7"
    "refunds captured_world = []"
    by (simp_all add: captured_world_def)
  show "fst (refund_payment test_env (refund_of a) captured_world)
           = Return \<lparr>r_success = True, r_refund_id = Some ''re_0400000000000000'',
               r_amount = a, r_error = None\<rparr>"
    using r(1) by (simp add: n test_uuid4_hex_simps)
  show "payments w2 = [captured_payment\<lparr>status := (if a < 100 then PARTIALLY_REFUNDED
                                                      else REFUNDED), updated_at := 8\<rparr>]"
    using r(2) by (simp add: w2_def n)
  show "map rf_amount (refunds w2) = [a]"
    using r(3) by (simp add: w2_def n)
  show "map rf_refund_id (refunds w2) = [''re_0400000000000000'']"
    using r(3) by (simp add: w2_def n test_uuid4_hex_simps)
  show "map rf_id (refunds w2) = [''05000000-0000-0000-0000-000000000000'']"
    using r(3) by (simp add: w2_def n test_uuid4_hex_simps uuid_str_def)
  show "map rf_payment_id (refunds w2) = [''00000000-0000-0000-0000-000000000000'']"
    using r(3) by (simp add: w2_def n)
  show "n_uuid w2 = 6"
    using r(4) by (simp add: w2_def n)
  show "GwRefund ''txn_0300000000000000'' a None \<in> set (calls w2)"
    using r(5) by (simp add: w2_def)
qed

lemma refunds_ok_columns:
  "refunds_ok t rs \<longleftrightarrow> distinct (map rf_id rs) \<and> distinct (map rf_refund_id rs) \<and>
     set (map rf_payment_id rs) \<subseteq> set (map id' t)"
  by (auto simp: refunds_ok_def list_all_iff)

lemma scenario_second_refund:
  fixes a b :: amount
  defines "w2 \<equiv> snd (refund_payment test_env (refund_of a) captured_world)"
  defines "w3 \<equiv> snd (refund_payment test_env (refund_of b) w2)"
  assumes a: "a < 100"
  shows "fst (refund_payment test_env (refund_of b) w2)
           = Return \<lparr>r_success = True, r_refund_id = Some ''re_0600000000000000'',
               r_amount = b, r_error = None\<rparr>"
    and "map status (payments w3) = [if b < 100 then PARTIALLY_REFUNDED else REFUNDED]"
    and "payments w3 = [captured_payment\<lparr>status := (if b < 100 then PARTIALLY_REFUNDED
                                               else REFUNDED), updated_at := n_clock w2 + 1\<rparr>]"
    and "map rf_amount (refunds w3) = [a, b]"
    and "map rf_refund_id (refunds w3) = [''re_0400000000000000'', ''re_0600000000000000'']"
    and "map rf_id (refunds w3) = [''05000000-0000-0000-0000-000000000000'',
                                   ''07000000-0000-0000-0000-000000000000'']"
    and "map rf_payment_id (refunds w3) = [''00000000-0000-0000-0000-000000000000'',
                                           ''00000000-0000-0000-0000-000000000000'']"
    and "n_uuid w3 = 8"
    and "GwRefund ''txn_0300000000000000'' b None \<in> set (calls w3)"
proof -
  note one = scenario_first_refund [of a, folded w2_def]
  have p: "payments w2 = [captured_payment\<lparr>status := PARTIALLY_REFUNDED, updated_at := 8\<rparr>]"
    using one(2) a by simp
  have rok: "refunds_ok (payments w2) (refunds w2)"
    by (simp add: refunds_ok_columns one p captured_payment_def)
  have f1: "''re_'' @ take 16 (test_uuid4_hex (n_uuid w2)) \<notin> rf_refund_id ` set (refunds w2)"
    using one(4) by (simp add: one(7) test_uuid4_hex_simps flip: set_map)
  have f2: "uuid_str (test_uuid4_hex (Suc (n_uuid w2))) \<notin> rf_id ` set (refunds w2)"
    using one(5)
    by (simp add: one(7) test_uuid4_hex_simps uuid_str_def flip: set_map)
  note r = scenario_partial_refund [OF p disjI2 [OF refl] rok f1 f2, of b, folded w3_def]
  show "fst (refund_payment test_env (refund_of b) w2)
           = Return \<lparr>r_success = True, r_refund_id = Some ''re_0600000000000000'',
               r_amount = b, r_error = None\<rparr>"
    using r(1) by (simp add: one(7) test_uuid4_hex_simps)
  show "payments w3 = [captured_payment\<lparr>status := (if b < 100 then PARTIALLY_REFUNDED
                                               else REFUNDED), updated_at := n_clock w2 + 1\<rparr>]"
    using r(2) .
  then show "map status (payments w3) = [if b < 100 then PARTIALLY_REFUNDED else REFUNDED]"
    by simp
  show "map rf_amount (refunds w3) = [a, b]"
    using r(3) one(3) by simp
  show "map rf_refund_id (refunds w3) = [''re_0400000000000000'', ''re_0600000000000000'']"
    using r(3) one(4) by (simp add: one(7) test_uuid4_hex_simps)
  show "map rf_id (refunds w3) = [''05000000-0000-0000-0000-000000000000'',
                                   ''07000000-0000-0000-0000-000000000000'']"
    using r(3) one(5) by (simp add: one(7) test_uuid4_hex_simps uuid_str_def)
  show "map rf_payment_id (refunds w3) = [''00000000-0000-0000-0000-000000000000'',
                                           ''00000000-0000-0000-0000-000000000000'']"
    using r(3) one(6) by simp
  show "n_uuid w3 = 8"
    using r(4) by (simp add: one(7))
  show "GwRefund ''txn_0300000000000000'' b None \<in> set (calls w3)"
    using r(5) .
qed

lemma scenario_third_refund:
  fixes a b c :: amount
  defines "w2 \<equiv> snd (refund_payment test_env (refund_of a) captured_world)"
  defines "w3 \<equiv> snd (refund_payment test_env (refund_of b) w2)"
  defines "w4 \<equiv> snd (refund_payment test_env (refund_of c) w3)"
  assumes a: "a < 100" and b: "b < 100"
  shows "fst (refund_payment test_env (refund_of c) w3)
           = Return \<lparr>r_success = True, r_refund_id = Some ''re_0800000000000000'',
               r_amount = c, r_error = None\<rparr>"
    and "map status (payments w4) = [if c < 100 then PARTIALLY_REFUNDED else REFUNDED]"
    and "map rf_amount (refunds w4) = [a, b, c]"
    and "GwRefund ''txn_0300000000000000'' c None \<in> set (calls w4)"
proof -
  note two = scenario_second_refund [OF a, of b, folded w2_def, folded w3_def]
  have p: "payments w3 = [captured_payment\<lparr>status := PARTIALLY_REFUNDED,
                             updated_at := n_clock w2 + 1\<rparr>]"
    using two(3) b by simp
  have rok: "refunds_ok (payments w3) (refunds w3)"
    by (simp add: refunds_ok_columns two p captured_payment_def)
  have f1: "''re_'' @ take 16 (test_uuid4_hex (n_uuid w3)) \<notin> rf_refund_id ` set (refunds w3)"
    using two(5) by (simp add: two(8) test_uuid4_hex_simps flip: set_map)
  have f2: "uuid_str (test_uuid4_hex (Suc (n_uuid w3))) \<notin> rf_id ` set (refunds w3)"
    using two(6)
    by (simp add: two(8) test_uuid4_hex_simps uuid_str_def flip: set_map)
  note r = scenario_partial_refund [OF p disjI2 [OF refl] rok f1 f2, of c, folded w4_def]
  show "fst (refund_payment test_env (refund_of c) w3)
           = Return \<lparr>r_success = True, r_refund_id = Some ''re_0800000000000000'',
               r_amount = c, r_error = None\<rparr>"
    using r(1) by (simp add: two(8) test_uuid4_hex_simps)
  show "map status (payments w4) = [if c < 100 then PARTIALLY_REFUNDED else REFUNDED]"
    using r(2) by simp
  show "map rf_amount (refunds w4) = [a, b, c]"
    using r(3) two(4) by simp
  show "GwRefund ''txn_0300000000000000'' c None \<in> set (calls w4)"
    using r(5) .
qed











section \<open>The claims\<close>

text \<open>
  C9. Whatever the producer's \<^verbatim>\<open>send\<close> does (it may raise, and the producer may
  not even be started), \<^verbatim>\<open>_publish_event\<close> and the three publishers built on it
  return normally: nothing is propagated to the orchestrator. Publishing touches neither
  the payment rows nor the refund rows, so what the store has committed stays as it is.
\<close>

theorem publish_failure_swallowed:
  "fst (publish_event e etype pid d w) = Return () \<and>
   fst (publish_payment_successful e (Some p) w) = Return () \<and>
   fst (publish_payment_failed e (Some p) msg w) = Return () \<and>
   fst (publish_payment_refunded e (Some p) rid amt w) = Return () \<and>
   payments (snd (publish_event e etype pid d w)) = payments w \<and>
   refunds (snd (publish_event e etype pid d w)) = refunds w"
  by (simp add: publish_event_result publish_payment_successful_def publish_payment_failed_def
        publish_payment_refunded_def split: option.splits)

text \<open>
  C7. When the lookup by transaction id finds a payment whose status is neither
  \<open>CAPTURED\<close> nor \<open>PARTIALLY_REFUNDED\<close>, \<^verbatim>\<open>refund_payment\<close> answers with the
  failure response "Payment in status ... cannot be refunded" and the only thing it has
  done is the lookup: the log of gateway calls, the payment rows and the refund rows are
  unchanged, so the gateway's refund was not invoked.
\<close>

theorem refund_rejected_unless_refundable:
  assumes "session_fault e (n_session w) = None"
    and "filter (\<lambda>r. transaction_id r = Some (rr_transaction_id request)) (payments w) = [payment]"
    and "status payment \<noteq> CAPTURED" and "status payment \<noteq> PARTIALLY_REFUNDED"
  shows "refund_payment e request w =
           (Return \<lparr>r_success = False, r_refund_id = None, r_amount = rr_amount request,
              r_error = Some (''Payment in status '' @ format_status e (status payment)
                                @ '' cannot be refunded'')\<rparr>,
            w\<lparr>n_session := Suc (n_session w)\<rparr>) \<and>
         calls (snd (refund_payment e request w)) = calls w \<and>
         payments (snd (refund_payment e request w)) = payments w \<and>
         refunds (snd (refund_payment e request w)) = refunds w"
  using refund_rejected [OF assms] by simp

theorem refund_rejected_unless_refundable_witness:
  "session_fault test_env (n_session (captured_world\<lparr>payments := [captured_payment\<lparr>status := FAILED\<rparr>]\<rparr>)) = None \<and>
   filter (\<lambda>r. transaction_id r = Some (rr_transaction_id (refund_of 40)))
     (payments (captured_world\<lparr>payments := [captured_payment\<lparr>status := FAILED\<rparr>]\<rparr>))
     = [captured_payment\<lparr>status := FAILED\<rparr>] \<and>
   status (captured_payment\<lparr>status := FAILED\<rparr>) \<noteq> CAPTURED \<and>
   status (captured_payment\<lparr>status := FAILED\<rparr>) \<noteq> PARTIALLY_REFUNDED \<and>
   fst (refund_payment test_env (refund_of 40)
          (captured_world\<lparr>payments := [captured_payment\<lparr>status := FAILED\<rparr>]\<rparr>))
     = Return \<lparr>r_success = False, r_refund_id = None, r_amount = 40,
         r_error = Some ''Payment in status failed cannot be refunded''\<rparr> \<and>
   calls (snd (refund_payment test_env (refund_of 40)
          (captured_world\<lparr>payments := [captured_payment\<lparr>status := FAILED\<rparr>]\<rparr>)))
     = calls captured_world"
proof -
  let ?w = "captured_world\<lparr>payments := [captured_payment\<lparr>status := FAILED\<rparr>]\<rparr>"
  have 1: "session_fault test_env (n_session ?w) = None"
    by (simp add: test_env_def)
  have 2: "filter (\<lambda>r. transaction_id r = Some (rr_transaction_id (refund_of 40))) (payments ?w)
             = [captured_payment\<lparr>status := FAILED\<rparr>]"
    by (simp add: captured_payment_def refund_of_def)
  have 3: "status (captured_payment\<lparr>status := FAILED\<rparr>) \<noteq> CAPTURED" by simp
  have 4: "status (captured_payment\<lparr>status := FAILED\<rparr>) \<noteq> PARTIALLY_REFUNDED" by simp
  show ?thesis
    using refund_rejected_unless_refundable [OF 1 2 3 4] 1 2
    by (simp add: test_env_def refund_of_def)
qed

text \<open>
  C8. When the lookup finds a refundable payment and the gateway's refund call returns
  a failure dict, \<^verbatim>\<open>refund_payment\<close> returns the failure response that carries the
  gateway's error message, and the world it leaves is the one the gateway call left:
  payment rows, refund rows and delivered events are those from before the request.
\<close>

theorem refund_gateway_failure_changes_nothing:
  assumes "session_fault e (n_session w) = None"
    and "filter (\<lambda>r. transaction_id r = Some (rr_transaction_id request)) (payments w) = [payment]"
    and "status payment = CAPTURED \<or> status payment = PARTIALLY_REFUNDED"
    and "processor_refund_payment e (rr_transaction_id request) (rr_amount request)
           (rr_reason request) (w\<lparr>n_session := Suc (n_session w)\<rparr>)
         = (Return (Failure code msg flag), w')"
  shows "refund_payment e request w =
           (Return \<lparr>r_success = False, r_refund_id = None, r_amount = rr_amount request,
              r_error = Some msg\<rparr>, w') \<and>
         payments w' = payments w \<and> refunds w' = refunds w \<and> delivered w' = delivered w"
  using refund_gateway_failure [OF assms] processor_refund_frame [OF assms(4)] by simp

theorem refund_gateway_failure_changes_nothing_witness:
  "session_fault declining_env (n_session captured_world) = None \<and>
   filter (\<lambda>r. transaction_id r = Some (rr_transaction_id (refund_of 40)))
     (payments captured_world) = [captured_payment] \<and>
   (status captured_payment = CAPTURED \<or> status captured_payment = PARTIALLY_REFUNDED) \<and>
   fst (processor_refund_payment declining_env (rr_transaction_id (refund_of 40))
          (rr_amount (refund_of 40)) (rr_reason (refund_of 40))
          (captured_world\<lparr>n_session := Suc (n_session captured_world)\<rparr>))
     = Return (Failure ''refund_failed'' ''Failed to process refund'' False) \<and>
   fst (refund_payment declining_env (refund_of 40) captured_world)
     = Return \<lparr>r_success = False, r_refund_id = None, r_amount = 40,
         r_error = Some ''Failed to process refund''\<rparr> \<and>
   payments (snd (refund_payment declining_env (refund_of 40) captured_world))
     = [captured_payment] \<and>
   refunds (snd (refund_payment declining_env (refund_of 40) captured_world)) = []"
proof -
  let ?w1 = "captured_world\<lparr>n_session := Suc (n_session captured_world)\<rparr>"
  let ?w' = "?w1\<lparr>calls := calls ?w1 @ [GwRefund (rr_transaction_id (refund_of 40))
               (rr_amount (refund_of 40)) (rr_reason (refund_of 40))],
             n_random := Suc (n_random ?w1)\<rparr>"
  have 1: "session_fault declining_env (n_session captured_world) = None"
    by (simp add: declining_env_def test_env_def)
  have 2: "filter (\<lambda>r. transaction_id r = Some (rr_transaction_id (refund_of 40)))
             (payments captured_world) = [captured_payment]"
    by (simp add: captured_world_def captured_payment_def refund_of_def)
  have 3: "status captured_payment = CAPTURED \<or> status captured_payment = PARTIALLY_REFUNDED"
    by (simp add: captured_payment_def)
  have d: "\<not> random_random declining_env (n_random ?w1) < 95 / 100"
    by (simp add: declining_env_def)
  have 4: "processor_refund_payment declining_env (rr_transaction_id (refund_of 40))
             (rr_amount (refund_of 40)) (rr_reason (refund_of 40)) ?w1
           = (Return (Failure ''refund_failed'' ''Failed to process refund'' False), ?w')"
    by (rule processor_refund_payment_declined [OF d])
  show ?thesis
    using refund_gateway_failure_changes_nothing [OF 1 2 3 4] 1 2 3 4
    by (simp add: refund_of_def captured_world_def)
qed

text \<open>
  C6. A process request handled while the store is up, with a gateway whose authorize
  and capture draws both succeed and with UUIDs that do not repeat ids already stored:
  the response is the success response with status \<open>CAPTURED\<close>; the transaction id
  and the intent id are non-empty; the store holds one new row, \<open>CAPTURED\<close>, with these
  ids and with \<open>authorized_at = captured_at\<close>; the table still satisfies its uniqueness
  constraints (ids, transaction ids and intent ids are pairwise distinct across payments);
  and after the two gateway calls exactly one send is attempted, of the event
  \<open>payment.successful\<close> keyed by the payment id (none if the producer was never
  started, in which case the publisher has swallowed the error).
\<close>

theorem process_payment_gateway_succeeds:
  fixes e :: env and w :: world and request :: ProcessPaymentRequest
  defines "pid \<equiv> uuid_str (uuid4_hex e (n_uuid w))"
    and "tid \<equiv> ''txn_'' @ take 16 (uuid4_hex e (n_uuid w + 3))"
    and "piid \<equiv> ''pi_'' @ take 24 (uuid4_hex e (Suc (n_uuid w)))"
    and "w' \<equiv> snd (process_payment e request w)"
  assumes up: "\<forall>k. session_fault e k = None"
    and ok: "payments_ok (payments w)"
    and gw: "random_random e (n_random w) < 95 / 100"
            "random_random e (Suc (n_random w)) < 95 / 100"
    and fresh_id: "pid \<notin> id' ` set (payments w)"
    and fresh_txn: "Some tid \<notin> transaction_id ` set (payments w)"
    and fresh_pi: "Some piid \<notin> payment_intent_id ` set (payments w)"
  shows "fst (process_payment e request w)
           = Return \<lparr>success = True, resp_transaction_id = Some tid,
               resp_payment_intent_id = Some piid, resp_status = CAPTURED, error = None\<rparr> \<and>
         tid \<noteq> [] \<and> piid \<noteq> [] \<and>
         payments w' = payments w @
           [\<lparr>id' = pid, order_id = req_order_id request, amount = req_amount request,
             currency = req_currency request, payment_method = req_payment_method request,
             status = CAPTURED, transaction_id = Some tid, payment_intent_id = Some piid,
             provider_response = Some (Captured tid piid (utcnow e (n_clock w + 4))
                                         (req_amount request)),
             error_message = None, created_at = utcnow e (n_clock w),
             updated_at = utcnow e (n_clock w + 5),
             authorized_at = Some (utcnow e (n_clock w + 5)),
             captured_at = Some (utcnow e (n_clock w + 5)), refunded_at = None\<rparr>] \<and>
         payments_ok (payments w') \<and>
         calls w' = calls w @
           [GwAuthorize (req_amount request) (req_payment_method request),
            GwCapture piid (req_amount request)] @
           (if producer w
            then [KafkaSend \<lparr>event_type = ''payment.successful'', ev_payment_id = pid,
                    timestamp = utcnow e (n_clock w + 6),
                    data = SuccessfulData (req_order_id request) (req_amount request)
                             (req_currency request) (req_payment_method request)
                             (Some tid) (Some piid)\<rparr>]
            else [])"
proof -
  note eq = process_payment_captured [OF up ok gw fresh_id [unfolded pid_def]
              fresh_txn [unfolded tid_def] fresh_pi [unfolded piid_def], of request]
  have new_ok: "payments_ok (payments w')"
    using ok fresh_id fresh_txn fresh_pi
    by (simp add: w'_def eq publish_event_result payments_ok_snoc pid_def tid_def piid_def
          split: option.splits)
  show ?thesis
    using new_ok
    by (simp add: w'_def eq publish_event_result pid_def tid_def piid_def eval_nat_numeral
          split: option.splits)
qed

theorem process_payment_gateway_succeeds_witness:
  "(\<forall>k. session_fault test_env k = None) \<and>
   payments_ok (payments fresh_world) \<and>
   random_random test_env (n_random fresh_world) < 95 / 100 \<and>
   random_random test_env (Suc (n_random fresh_world)) < 95 / 100 \<and>
   fst (process_payment test_env ord1_request fresh_world)
     = Return \<lparr>success = True, resp_transaction_id = Some ''txn_0300000000000000'',
         resp_payment_intent_id = Some ''pi_010000000000000000000000'',
         resp_status = CAPTURED, error = None\<rparr> \<and>
   payments (snd (process_payment test_env ord1_request fresh_world)) = [captured_payment] \<and>
   authorized_at captured_payment = captured_at captured_payment \<and>
   calls (snd (process_payment test_env ord1_request fresh_world))
     = [GwAuthorize 100 CREDIT_CARD, GwCapture ''pi_010000000000000000000000'' 100,
        KafkaSend \<lparr>event_type = ''payment.successful'',
          ev_payment_id = ''00000000-0000-0000-0000-000000000000'', timestamp = 6,
          data = SuccessfulData ''ORD-1'' 100 USD CREDIT_CARD (Some ''txn_0300000000000000'')
                   (Some ''pi_010000000000000000000000'')\<rparr>]"
proof -
  have up: "\<forall>k. session_fault test_env k = None" by (simp add: test_env_simps)
  have ok: "payments_ok (payments fresh_world)" by (simp add: fresh_world_def payments_ok_def)
  have g1: "random_random test_env (n_random fresh_world) < 95 / 100"
    by (simp add: test_env_simps)
  have g2: "random_random test_env (Suc (n_random fresh_world)) < 95 / 100"
    by (simp add: test_env_simps)
  have f1: "uuid_str (uuid4_hex test_env (n_uuid fresh_world)) \<notin> id' ` set (payments fresh_world)"
    by (simp add: fresh_world_def)
  have f2: "Some (''txn_'' @ take 16 (uuid4_hex test_env (n_uuid fresh_world + 3)))
              \<notin> transaction_id ` set (payments fresh_world)"
    by (simp add: fresh_world_def)
  have f3: "Some (''pi_'' @ take 24 (uuid4_hex test_env (Suc (n_uuid fresh_world))))
              \<notin> payment_intent_id ` set (payments fresh_world)"
    by (simp add: fresh_world_def)
  show ?thesis
    using process_payment_gateway_succeeds [OF up ok g1 g2 f1 f2 f3, of ord1_request] up ok
    by (simp add: fresh_world_def test_env_simps test_uuid4_hex_simps uuid_str_def
          ord1_request_def captured_payment_def)
qed

text \<open>
  C3. A refund request whose lookup finds a payment in status \<open>CAPTURED\<close>, handled
  while the store is up, with a gateway whose refund draw succeeds and with a refund id
  and a row id not stored before: the response is the success response with the gateway's
  refund id; the payment's row is \<open>PARTIALLY_REFUNDED\<close> when the requested amount is
  below the payment's amount and \<open>REFUNDED\<close> otherwise (in particular when the two are
  equal), and nothing else of the payments table changes but that row's
  \<^verbatim>\<open>updated_at\<close>; one refund row with the payment's id, the refund id and the
  requested amount is appended; and after the gateway call one send is attempted, of the
  event \<open>payment.refunded\<close> carrying refund id, refund amount and original amount,
  which is delivered when the producer is started and its send does not fail.
\<close>

theorem refund_of_captured_payment:
  fixes e :: env and w :: world and request :: RefundRequest
  defines "refund_id \<equiv> ''re_'' @ take 16 (uuid4_hex e (n_uuid w))"
    and "w' \<equiv> snd (refund_payment e request w)"
  defines "ev \<equiv> \<lambda>payment. \<lparr>event_type = ''payment.refunded'', ev_payment_id = id' payment,
                 timestamp = utcnow e (n_clock w + 3),
                 data = RefundedData (order_id payment) refund_id (rr_amount request)
                          (amount payment) (currency payment)\<rparr>"
  assumes up: "\<forall>k. session_fault e k = None"
    and ok: "payments_ok (payments w)"
    and rok: "refunds_ok (payments w) (refunds w)"
    and found: "filter (\<lambda>r. transaction_id r = Some (rr_transaction_id request)) (payments w)
                  = [payment]"
    and st: "status payment = CAPTURED"
    and gw: "random_random e (n_random w) < 95 / 100"
    and fresh_refund: "refund_id \<notin> rf_refund_id ` set (refunds w)"
    and fresh_row: "uuid_str (uuid4_hex e (Suc (n_uuid w))) \<notin> rf_id ` set (refunds w)"
  shows "fst (refund_payment e request w)
           = Return \<lparr>r_success = True, r_refund_id = Some refund_id,
               r_amount = rr_amount request, r_error = None\<rparr> \<and>
         payments w' = update_where_id (id' payment)
            (\<lambda>r. r\<lparr>status := (if rr_amount request < amount payment
                                 then PARTIALLY_REFUNDED else REFUNDED),
                    updated_at := utcnow e (n_clock w + 1)\<rparr>) (payments w) \<and>
         map status (filter (\<lambda>r. id' r = id' payment) (payments w'))
           = [if rr_amount request < amount payment then PARTIALLY_REFUNDED else REFUNDED] \<and>
         refunds w' = refunds w @
            [\<lparr>rf_id = uuid_str (uuid4_hex e (Suc (n_uuid w))), rf_payment_id = id' payment,
              rf_refund_id = refund_id, rf_amount = rr_amount request,
              rf_reason = rr_reason request, rf_created_at = utcnow e (n_clock w + 2)\<rparr>] \<and>
         calls w' = calls w @
            [GwRefund (rr_transaction_id request) (rr_amount request) (rr_reason request)] @
            (if producer w then [KafkaSend (ev payment)] else []) \<and>
         delivered w' = delivered w @
            (if producer w \<and> send_fault e (n_send w) = None then [ev payment] else [])"
proof -
  note eq = refund_payment_accepted [OF up ok rok found disjI1 [OF st] gw
              fresh_refund [unfolded refund_id_def] fresh_row]
  have mem: "payment \<in> set (payments w)"
    using filter_singleton_mem [OF found] by simp
  have rows: "filter (\<lambda>r. id' r = id' payment) (payments w) = [payment]"
    using ok mem by (simp add: payments_ok_def filter_id_unique)
  have flip: "(if amount payment \<le> rr_amount request then REFUNDED else PARTIALLY_REFUNDED)
              = (if rr_amount request < amount payment then PARTIALLY_REFUNDED else REFUNDED)"
    by auto
  have pay: "payments w' = update_where_id (id' payment)
            (\<lambda>r. r\<lparr>status := (if rr_amount request < amount payment
                                 then PARTIALLY_REFUNDED else REFUNDED),
                    updated_at := utcnow e (n_clock w + 1)\<rparr>) (payments w)"
    by (simp add: w'_def eq publish_event_result flip split: option.splits)
  have stat: "map status (filter (\<lambda>r. id' r = id' payment) (payments w'))
           = [if rr_amount request < amount payment then PARTIALLY_REFUNDED else REFUNDED]"
    by (simp add: pay filter_id_update rows)
  show ?thesis
    using pay stat
    by (simp add: w'_def eq publish_event_result refund_id_def ev_def eval_nat_numeral
          split: option.splits)
qed

theorem refund_of_captured_payment_witness:
  "(\<forall>k. session_fault test_env k = None) \<and>
   payments_ok (payments captured_world) \<and>
   refunds_ok (payments captured_world) (refunds captured_world) \<and>
   filter (\<lambda>r. transaction_id r = Some (rr_transaction_id (refund_of 40)))
     (payments captured_world) = [captured_payment] \<and>
   status captured_payment = CAPTURED \<and>
   random_random test_env (n_random captured_world) < 95 / 100 \<and>
   fst (refund_payment test_env (refund_of 40) captured_world)
     = Return \<lparr>r_success = True, r_refund_id = Some ''re_0400000000000000'',
         r_amount = 40, r_error = None\<rparr> \<and>
   map status (payments (snd (refund_payment test_env (refund_of 40) captured_world)))
     = [PARTIALLY_REFUNDED] \<and>
   map status (payments (snd (refund_payment test_env (refund_of 100) captured_world)))
     = [REFUNDED] \<and>
   map rf_amount (refunds (snd (refund_payment test_env (refund_of 40) captured_world)))
     = [40] \<and>
   delivered (snd (refund_payment test_env (refund_of 40) captured_world))
     = delivered captured_world @
       [\<lparr>event_type = ''payment.refunded'',
         ev_payment_id = ''00000000-0000-0000-0000-000000000000'', timestamp = 10,
         data = RefundedData ''ORD-1'' ''re_0400000000000000'' 40 100 USD\<rparr>]"
proof -
  have up: "\<forall>k. session_fault test_env k = None" by (simp add: test_env_simps)
  have st: "status captured_payment = CAPTURED" by (simp add: captured_payment_def)
  have gw: "random_random test_env (n_random captured_world) < 95 / 100"
    by (simp add: test_env_simps)
  have f1: "''re_'' @ take 16 (uuid4_hex test_env (n_uuid captured_world))
              \<notin> rf_refund_id ` set (refunds captured_world)"
    by (simp add: captured_world_def)
  have f2: "uuid_str (uuid4_hex test_env (Suc (n_uuid captured_world)))
              \<notin> rf_id ` set (refunds captured_world)"
    by (simp add: captured_world_def)
  note a = refund_of_captured_payment [OF up captured_world_ok(1,2) captured_world_ok(3) [of 40] st gw
             f1 f2]
  note b = refund_of_captured_payment [OF up captured_world_ok(1,2) captured_world_ok(3) [of 100] st gw
             f1 f2]
  have n: "n_uuid captured_world = 4" "n_clock captured_world = 7" "n_send captured_world = 1"
    "producer captured_world" "payments captured_world = [captured_payment]"
    "refunds captured_world = []"
    by (simp_all add: captured_world_def)
  show ?thesis
    using a b up captured_world_ok(1,2) captured_world_ok(3) [of 40] st gw
    by (simp add: n test_env_simps test_uuid4_hex_simps refund_of_def update_where_id_Cons
          update_where_id_Nil captured_payment_def)
qed

text \<open>
  C2 as the claim states it fails: in the scenario the second refund, of 60.00, leaves
  the payment \<open>PARTIALLY_REFUNDED\<close>, not \<open>REFUNDED\<close>, and a third refund of 1.00 is
  accepted.
\<close>

theorem scenario_second_refund_counterexample:
  "snd (process_payment test_env ord1_request fresh_world) = captured_world \<and>
   map status (payments (run_refunds test_env [refund_of 40, refund_of 60] captured_world))
     = [PARTIALLY_REFUNDED] \<and>
   fst (refund_payment test_env (refund_of 1)
          (run_refunds test_env [refund_of 40, refund_of 60] captured_world))
     = Return \<lparr>r_success = True, r_refund_id = Some ''re_0800000000000000'', r_amount = 1,
         r_error = None\<rparr>"
  using scenario_second_refund(2) [of 40 60] scenario_third_refund(1) [of 40 60 1]
  by (simp add: scenario_capture)

text \<open>
  C2, amended. In the scenario (payment of 100.00 for ORD-1, captured; the gateway always
  succeeds) the refund of 40.00 succeeds and leaves the payment \<open>PARTIALLY_REFUNDED\<close>;
  the refund of 60.00 succeeds and leaves it \<open>PARTIALLY_REFUNDED\<close> as well, because
  the new status compares the requested amount with the original amount only; a third
  refund, of any amount \<open>r\<close>, is therefore not rejected: the gateway's refund is
  called, the request succeeds, and the payment becomes \<open>REFUNDED\<close> exactly when
  \<open>r\<close> alone reaches 100.00.
\<close>

theorem scenario_refunds_by_requested_amount:
  "process_payment test_env ord1_request fresh_world
     = (Return \<lparr>success = True, resp_transaction_id = Some ''txn_0300000000000000'',
          resp_payment_intent_id = Some ''pi_010000000000000000000000'',
          resp_status = CAPTURED, error = None\<rparr>, captured_world) \<and>
   fst (refund_payment test_env (refund_of 40) captured_world)
     = Return \<lparr>r_success = True, r_refund_id = Some ''re_0400000000000000'', r_amount = 40,
         r_error = None\<rparr> \<and>
   map status (payments (run_refunds test_env [refund_of 40] captured_world))
     = [PARTIALLY_REFUNDED] \<and>
   fst (refund_payment test_env (refund_of 60)
          (run_refunds test_env [refund_of 40] captured_world))
     = Return \<lparr>r_success = True, r_refund_id = Some ''re_0600000000000000'', r_amount = 60,
         r_error = None\<rparr> \<and>
   map status (payments (run_refunds test_env [refund_of 40, refund_of 60] captured_world))
     = [PARTIALLY_REFUNDED] \<and>
   fst (refund_payment test_env (refund_of r)
          (run_refunds test_env [refund_of 40, refund_of 60] captured_world))
     = Return \<lparr>r_success = True, r_refund_id = Some ''re_0800000000000000'', r_amount = r,
         r_error = None\<rparr> \<and>
   GwRefund ''txn_0300000000000000'' r None
     \<in> set (calls (run_refunds test_env [refund_of 40, refund_of 60, refund_of r]
                      captured_world)) \<and>
   map status (payments (run_refunds test_env [refund_of 40, refund_of 60, refund_of r]
                           captured_world))
     = [if r < 100 then PARTIALLY_REFUNDED else REFUNDED]"
  using scenario_first_refund(1,2) [of 40] scenario_second_refund(1,2) [of 40 60]
    scenario_third_refund(1,2,4) [of 40 60 r]
  by (simp add: scenario_capture)

theorem scenario_refunds_by_requested_amount_witness:
  "map status (payments (run_refunds test_env [refund_of 40, refund_of 60, refund_of 10]
                           captured_world)) = [PARTIALLY_REFUNDED] \<and>
   map status (payments (run_refunds test_env [refund_of 40, refund_of 60, refund_of 100]
                           captured_world)) = [REFUNDED]"
  using scenario_refunds_by_requested_amount [of 10]
    scenario_refunds_by_requested_amount [of 100]
  by simp

text \<open>
  C1 as the claim states it fails: two refunds of 60.00 against the captured payment of
  100.00 are both accepted, the gateway is called for the second although only 40.00
  remain refundable, and the recorded refunds sum to 120.00.
\<close>

theorem cumulative_refunds_exceed_amount_counterexample:
  "amount captured_payment = 100 \<and>
   fst (refund_payment test_env (refund_of 60)
          (run_refunds test_env [refund_of 60] captured_world))
     = Return \<lparr>r_success = True, r_refund_id = Some ''re_0600000000000000'', r_amount = 60,
         r_error = None\<rparr> \<and>
   GwRefund ''txn_0300000000000000'' 60 None
     \<in> set (calls (run_refunds test_env [refund_of 60, refund_of 60] captured_world)) \<and>
   map rf_payment_id (refunds (run_refunds test_env [refund_of 60, refund_of 60] captured_world))
     = [id' captured_payment, id' captured_payment] \<and>
   sum_list (map rf_amount
      (refunds (run_refunds test_env [refund_of 60, refund_of 60] captured_world))) = 120"
  using scenario_second_refund(1,4,7,9) [of 60 60]
  by (simp add: captured_payment_def)

text \<open>
  C4 as the claim states it fails: asked to move a payment that is not in the store to
  \<open>CAPTURED\<close>, \<^verbatim>\<open>update_status\<close> raises nothing and returns \<^verbatim>\<open>None\<close>.
\<close>

theorem update_unknown_id_counterexample:
  "''no-such-payment'' \<notin> id' ` set (payments captured_world) \<and>
   update_status test_env ''no-such-payment'' CAPTURED captured_world
     = (Return None, captured_world\<lparr>n_clock := 8, n_session := 11\<rparr>)"
proof -
  have up: "\<forall>k. session_fault test_env k = None" by (simp add: test_env_simps)
  have absent: "''no-such-payment'' \<notin> id' ` set (payments captured_world)"
    by (simp add: captured_world_def captured_payment_def)
  have len: "length (filter (\<lambda>r. id' r = ''no-such-payment'') (payments captured_world)) \<le> 1"
    by (simp add: filter_id_absent [OF absent])
  show ?thesis
    using absent update_status_up [OF up captured_world_ok(1) len, of CAPTURED]
    by (simp add: filter_id_absent update_where_id_absent captured_world_def)
qed

text \<open>
  C4, amended. For an identifier that is not in the store, while the store is up, each
  of the three status transitions of the repository (\<^verbatim>\<open>update_status\<close>,
  \<^verbatim>\<open>update_payment_success\<close>, \<^verbatim>\<open>update_payment_failure\<close>) updates no row and
  returns \<^verbatim>\<open>None\<close>: the \<^verbatim>\<open>UPDATE\<close> matches nothing and the read-back finds
  nothing. No error is raised; what the world shows afterwards is one reading of the
  clock and three round trips of the session.
\<close>

theorem update_unknown_id_returns_none:
  assumes up: "\<forall>k. session_fault e k = None"
    and ok: "payments_ok (payments w)"
    and absent: "pid \<notin> id' ` set (payments w)"
  shows "update_status e pid st w
           = (Return None, w\<lparr>n_clock := Suc (n_clock w), n_session := n_session w + 3\<rparr>) \<and>
         update_payment_success e pid tid piid response w
           = (Return None, w\<lparr>n_clock := Suc (n_clock w), n_session := n_session w + 3\<rparr>) \<and>
         update_payment_failure e pid msg failure w
           = (Return None, w\<lparr>n_clock := Suc (n_clock w), n_session := n_session w + 3\<rparr>)"
proof -
  have len: "length (filter (\<lambda>r. id' r = pid) (payments w)) \<le> 1"
    by (simp add: filter_id_absent [OF absent])
  have ok': "\<And>vals. payments_ok (update_where_id pid vals (payments w))"
    using ok absent by (simp add: update_where_id_absent)
  show ?thesis
    using absent update_status_up [OF up ok len, of st]
      update_payment_success_up [OF up ok' len, of tid piid response]
      update_payment_failure_up [OF up ok len, of msg failure]
    by (simp add: filter_id_absent update_where_id_absent)
qed

theorem update_unknown_id_returns_none_witness:
  "(\<forall>k. session_fault test_env k = None) \<and>
   payments_ok (payments captured_world) \<and>
   ''no-such-payment'' \<notin> id' ` set (payments captured_world) \<and>
   fst (update_status test_env ''no-such-payment'' REFUNDED captured_world) = Return None \<and>
   payments (snd (update_status test_env ''no-such-payment'' REFUNDED captured_world))
     = [captured_payment] \<and>
   fst (update_payment_success test_env ''no-such-payment'' ''txn_x'' ''pi_x''
          (Captured ''txn_x'' ''pi_x'' 0 1) captured_world) = Return None"
proof -
  have up: "\<forall>k. session_fault test_env k = None" by (simp add: test_env_simps)
  have absent: "''no-such-payment'' \<notin> id' ` set (payments captured_world)"
    by (simp add: captured_world_def captured_payment_def)
  show ?thesis
    using update_unknown_id_returns_none [OF up captured_world_ok(1) absent] up absent
      captured_world_ok(1)
    by (simp add: captured_world_def)
qed

text \<open>
  C1, amended. The orchestrator does not bound the sum of a payment's refunds. What it
  keeps, for every environment (store faults included) and every sequence of refund
  requests, is the weaker \<open>full_refund_last\<close>: every refund row of a payment but its
  last is below the payment's amount, and a row that reaches the amount belongs to a
  payment that is \<open>REFUNDED\<close> (whose later refunds the status guard rejects). And a
  request against a \<open>CAPTURED\<close> or \<open>PARTIALLY_REFUNDED\<close> payment is never rejected
  for its amount: under normal operation (store up, gateway draw succeeds, fresh ids) the
  gateway's refund is called and the row is recorded whatever the amount requested.
\<close>

theorem refunds_guarded_by_status_only:
  "(full_refund_last w \<longrightarrow> full_refund_last (run_refunds e requests w)) \<and>
   ((\<forall>k. session_fault e k = None) \<and> payments_ok (payments w) \<and>
    refunds_ok (payments w) (refunds w) \<and>
    filter (\<lambda>r. transaction_id r = Some (rr_transaction_id request)) (payments w) = [payment] \<and>
    (status payment = CAPTURED \<or> status payment = PARTIALLY_REFUNDED) \<and>
    random_random e (n_random w) < 95 / 100 \<and>
    ''re_'' @ take 16 (uuid4_hex e (n_uuid w)) \<notin> rf_refund_id ` set (refunds w) \<and>
    uuid_str (uuid4_hex e (Suc (n_uuid w))) \<notin> rf_id ` set (refunds w)
    \<longrightarrow>
    fst (refund_payment e request w)
      = Return \<lparr>r_success = True,
          r_refund_id = Some (''re_'' @ take 16 (uuid4_hex e (n_uuid w))),
          r_amount = rr_amount request, r_error = None\<rparr> \<and>
    GwRefund (rr_transaction_id request) (rr_amount request) (rr_reason request)
      \<in> set (calls (snd (refund_payment e request w))) \<and>
    map rf_amount (refunds (snd (refund_payment e request w)))
      = map rf_amount (refunds w) @ [rr_amount request])"
proof (intro conjI impI)
  assume "full_refund_last w"
  then show "full_refund_last (run_refunds e requests w)"
    by (rule run_refunds_keeps_full_refund_last)
next
  assume h: "(\<forall>k. session_fault e k = None) \<and> payments_ok (payments w) \<and>
    refunds_ok (payments w) (refunds w) \<and>
    filter (\<lambda>r. transaction_id r = Some (rr_transaction_id request)) (payments w) = [payment] \<and>
    (status payment = CAPTURED \<or> status payment = PARTIALLY_REFUNDED) \<and>
    random_random e (n_random w) < 95 / 100 \<and>
    ''re_'' @ take 16 (uuid4_hex e (n_uuid w)) \<notin> rf_refund_id ` set (refunds w) \<and>
    uuid_str (uuid4_hex e (Suc (n_uuid w))) \<notin> rf_id ` set (refunds w)"
  then have up: "\<forall>k. session_fault e k = None" and ok: "payments_ok (payments w)"
    and rok: "refunds_ok (payments w) (refunds w)"
    and found: "filter (\<lambda>r. transaction_id r = Some (rr_transaction_id request)) (payments w)
                  = [payment]"
    and st: "status payment = CAPTURED \<or> status payment = PARTIALLY_REFUNDED"
    and gw: "random_random e (n_random w) < 95 / 100"
    and f1: "''re_'' @ take 16 (uuid4_hex e (n_uuid w)) \<notin> rf_refund_id ` set (refunds w)"
    and f2: "uuid_str (uuid4_hex e (Suc (n_uuid w))) \<notin> rf_id ` set (refunds w)"
    by simp_all
  note r = refund_payment_accepted_fields [OF up ok rok found st gw f1 f2]
  show "fst (refund_payment e request w)
      = Return \<lparr>r_success = True,
          r_refund_id = Some (''re_'' @ take 16 (uuid4_hex e (n_uuid w))),
          r_amount = rr_amount request, r_error = None\<rparr>"
    by (rule r(1))
  show "GwRefund (rr_transaction_id request) (rr_amount request) (rr_reason request)
      \<in> set (calls (snd (refund_payment e request w)))"
    by (rule r(6))
  show "map rf_amount (refunds (snd (refund_payment e request w)))
      = map rf_amount (refunds w) @ [rr_amount request]"
    by (simp add: r(3))
qed

theorem refunds_guarded_by_status_only_witness:
  "full_refund_last captured_world \<and>
   full_refund_last (run_refunds test_env [refund_of 60, refund_of 60] captured_world) \<and>
   (\<forall>k. session_fault test_env k = None) \<and> payments_ok (payments captured_world) \<and>
   refunds_ok (payments captured_world) (refunds captured_world) \<and>
   filter (\<lambda>r. transaction_id r = Some (rr_transaction_id (refund_of 1000)))
     (payments captured_world) = [captured_payment] \<and>
   (status captured_payment = CAPTURED \<or> status captured_payment = PARTIALLY_REFUNDED) \<and>
   random_random test_env (n_random captured_world) < 95 / 100 \<and>
   fst (refund_payment test_env (refund_of 1000) captured_world)
     = Return \<lparr>r_success = True, r_refund_id = Some ''re_0400000000000000'',
         r_amount = 1000, r_error = None\<rparr> \<and>
   GwRefund ''txn_0300000000000000'' 1000 None
     \<in> set (calls (snd (refund_payment test_env (refund_of 1000) captured_world))) \<and>
   map rf_amount (refunds (snd (refund_payment test_env (refund_of 1000) captured_world)))
     = [1000]"
proof -
  have inv: "full_refund_last captured_world"
    by (simp add: full_refund_last_def captured_world_def refunds_of_def)
  have up: "\<forall>k. session_fault test_env k = None" by (simp add: test_env_simps)
  have st: "status captured_payment = CAPTURED \<or> status captured_payment = PARTIALLY_REFUNDED"
    by (simp add: captured_payment_def)
  have gw: "random_random test_env (n_random captured_world) < 95 / 100"
    by (simp add: test_env_simps)
  have f1: "''re_'' @ take 16 (uuid4_hex test_env (n_uuid captured_world))
              \<notin> rf_refund_id ` set (refunds captured_world)"
    by (simp add: captured_world_def)
  have f2: "uuid_str (uuid4_hex test_env (Suc (n_uuid captured_world)))
              \<notin> rf_id ` set (refunds captured_world)"
    by (simp add: captured_world_def)
  note t = refunds_guarded_by_status_only [of captured_world test_env
      "[refund_of 60, refund_of 60]" "refund_of 1000" captured_payment]
  have n: "n_uuid captured_world = 4" "refunds captured_world = []"
    by (simp_all add: captured_world_def)
  show ?thesis
    using t inv up captured_world_ok(1,2) captured_world_ok(3) [of 1000] st gw f1 f2
    by (simp add: n test_env_simps test_uuid4_hex_simps refund_of_def)
qed

text \<open>
  C10. No operation assigns \<^verbatim>\<open>refunded_at\<close>. Whatever the environment does (store
  faults included), after \<^verbatim>\<open>process_payment\<close> and after each of the repository's
  writers the column \<^verbatim>\<open>refunded_at\<close> is what it was, possibly with new rows that
  hold \<^verbatim>\<open>NULL\<close>; after \<^verbatim>\<open>refund_payment\<close> every payment row is what it was in
  all columns but \<^verbatim>\<open>status\<close> and \<^verbatim>\<open>updated_at\<close>, so that \<^verbatim>\<open>refunded_at\<close>
  in particular is unchanged, also by a full refund that sets \<open>REFUNDED\<close>. On a
  successful capture the new row has \<^verbatim>\<open>authorized_at\<close> and \<^verbatim>\<open>captured_at\<close> set,
  to the same reading of the clock, and \<^verbatim>\<open>refunded_at\<close> unset.
\<close>

theorem refunded_at_never_assigned:
  "refunded_at_unassigned w (snd (process_payment e preq w)) \<and>
   refunded_at_unassigned w (snd (create_payment e oid amt cur method w)) \<and>
   refunded_at_unassigned w (snd (update_status e pid st w)) \<and>
   refunded_at_unassigned w (snd (update_payment_success e pid tid piid response w)) \<and>
   refunded_at_unassigned w (snd (update_payment_failure e pid msg failure w)) \<and>
   refunded_at_unassigned w (snd (add_refund_record e pid refid amt reason w)) \<and>
   map untouched_by_refund (payments (snd (refund_payment e rreq w)))
     = map untouched_by_refund (payments w) \<and>
   map refunded_at (payments (snd (refund_payment e rreq w))) = map refunded_at (payments w) \<and>
   ((\<forall>k. session_fault e k = None) \<and> payments_ok (payments w) \<and>
    random_random e (n_random w) < 95 / 100 \<and>
    random_random e (Suc (n_random w)) < 95 / 100 \<and>
    uuid_str (uuid4_hex e (n_uuid w)) \<notin> id' ` set (payments w) \<and>
    Some (''txn_'' @ take 16 (uuid4_hex e (n_uuid w + 3))) \<notin> transaction_id ` set (payments w) \<and>
    Some (''pi_'' @ take 24 (uuid4_hex e (Suc (n_uuid w))))
      \<notin> payment_intent_id ` set (payments w)
    \<longrightarrow>
    map status (drop (length (payments w)) (payments (snd (process_payment e preq w))))
      = [CAPTURED] \<and>
    map authorized_at (drop (length (payments w)) (payments (snd (process_payment e preq w))))
      = [Some (utcnow e (n_clock w + 5))] \<and>
    map captured_at (drop (length (payments w)) (payments (snd (process_payment e preq w))))
      = [Some (utcnow e (n_clock w + 5))] \<and>
    map refunded_at (drop (length (payments w)) (payments (snd (process_payment e preq w))))
      = [None])"
proof -
  have u: "map untouched_by_refund (payments (snd (refund_payment e rreq w)))
             = map untouched_by_refund (payments w)"
    by (rule refund_payment_untouched)
  have "map (refunded_at \<circ> untouched_by_refund) (payments (snd (refund_payment e rreq w)))
          = map (refunded_at \<circ> untouched_by_refund) (payments w)"
    using arg_cong [OF u, of "map refunded_at"] by (simp only: map_map)
  then have r: "map refunded_at (payments (snd (refund_payment e rreq w)))
                  = map refunded_at (payments w)"
    by (simp add: comp_def untouched_by_refund_def)
  have c: "(\<forall>k. session_fault e k = None) \<and> payments_ok (payments w) \<and>
    random_random e (n_random w) < 95 / 100 \<and>
    random_random e (Suc (n_random w)) < 95 / 100 \<and>
    uuid_str (uuid4_hex e (n_uuid w)) \<notin> id' ` set (payments w) \<and>
    Some (''txn_'' @ take 16 (uuid4_hex e (n_uuid w + 3))) \<notin> transaction_id ` set (payments w) \<and>
    Some (''pi_'' @ take 24 (uuid4_hex e (Suc (n_uuid w))))
      \<notin> payment_intent_id ` set (payments w)
    \<longrightarrow>
    map status (drop (length (payments w)) (payments (snd (process_payment e preq w))))
      = [CAPTURED] \<and>
    map authorized_at (drop (length (payments w)) (payments (snd (process_payment e preq w))))
      = [Some (utcnow e (n_clock w + 5))] \<and>
    map captured_at (drop (length (payments w)) (payments (snd (process_payment e preq w))))
      = [Some (utcnow e (n_clock w + 5))] \<and>
    map refunded_at (drop (length (payments w)) (payments (snd (process_payment e preq w))))
      = [None]"
  proof (intro impI, elim conjE)
    assume up: "\<forall>k. session_fault e k = None" and ok: "payments_ok (payments w)"
      and g1: "random_random e (n_random w) < 95 / 100"
      and g2: "random_random e (Suc (n_random w)) < 95 / 100"
      and f1: "uuid_str (uuid4_hex e (n_uuid w)) \<notin> id' ` set (payments w)"
      and f2: "Some (''txn_'' @ take 16 (uuid4_hex e (n_uuid w + 3)))
                 \<notin> transaction_id ` set (payments w)"
      and f3: "Some (''pi_'' @ take 24 (uuid4_hex e (Suc (n_uuid w))))
                 \<notin> payment_intent_id ` set (payments w)"
    show "map status (drop (length (payments w)) (payments (snd (process_payment e preq w))))
      = [CAPTURED] \<and>
    map authorized_at (drop (length (payments w)) (payments (snd (process_payment e preq w))))
      = [Some (utcnow e (n_clock w + 5))] \<and>
    map captured_at (drop (length (payments w)) (payments (snd (process_payment e preq w))))
      = [Some (utcnow e (n_clock w + 5))] \<and>
    map refunded_at (drop (length (payments w)) (payments (snd (process_payment e preq w))))
      = [None]"
      by (simp add: process_payment_captured [OF up ok g1 g2 f1 f2 f3] publish_event_frame)
  qed
  show ?thesis
    using keepsD [OF keeps_unassigned_process_payment, of w e preq]
      keepsD [OF keeps_unassigned_create_payment, of w e oid amt cur "method"]
      keepsD [OF keeps_unassigned_update_status, of w e pid st]
      keepsD [OF keeps_unassigned_update_payment_success, of w e pid tid piid response]
      keepsD [OF keeps_unassigned_update_payment_failure, of w e pid msg failure]
      keepsD [OF keeps_unassigned_add_refund_record, of w e pid refid amt reason]
      u r c
    by blast
qed

theorem refunded_at_never_assigned_witness:
  "(\<forall>k. session_fault test_env k = None) \<and> payments_ok (payments fresh_world) \<and>
   random_random test_env (n_random fresh_world) < 95 / 100 \<and>
   random_random test_env (Suc (n_random fresh_world)) < 95 / 100 \<and>
   map authorized_at (payments (snd (process_payment test_env ord1_request fresh_world)))
     = [Some 5] \<and>
   map captured_at (payments (snd (process_payment test_env ord1_request fresh_world)))
     = [Some 5] \<and>
   map refunded_at (payments (snd (process_payment test_env ord1_request fresh_world)))
     = [None] \<and>
   map status (payments (snd (refund_payment test_env (refund_of 100) captured_world)))
     = [REFUNDED] \<and>
   map refunded_at (payments (snd (refund_payment test_env (refund_of 100) captured_world)))
     = [None]"
proof -
  have up: "\<forall>k. session_fault test_env k = None" by (simp add: test_env_simps)
  have ok: "payments_ok (payments fresh_world)" by (simp add: fresh_world_def payments_ok_def)
  note a = refunded_at_never_assigned [of fresh_world test_env ord1_request]
  note b = refunded_at_never_assigned [of captured_world test_env _ _ _ _ _ _ _ _ _ _ _ _ _ _
             "refund_of 100"]
  have s: "map status (payments (snd (refund_payment test_env (refund_of 100) captured_world)))
             = [REFUNDED]"
    using scenario_first_refund(2) [of 100] by simp
  have "map refunded_at (payments (snd (refund_payment test_env (refund_of 100) captured_world)))
          = map refunded_at (payments captured_world)"
    using b by blast
  then have r: "map refunded_at (payments (snd (refund_payment test_env (refund_of 100)
                   captured_world))) = [None]"
    by (simp add: captured_world_def captured_payment_def)
  have f: "uuid_str (uuid4_hex test_env (n_uuid fresh_world)) \<notin> id' ` set (payments fresh_world)"
    "Some (''txn_'' @ take 16 (uuid4_hex test_env (n_uuid fresh_world + 3)))
       \<notin> transaction_id ` set (payments fresh_world)"
    "Some (''pi_'' @ take 24 (uuid4_hex test_env (Suc (n_uuid fresh_world))))
       \<notin> payment_intent_id ` set (payments fresh_world)"
    by (simp_all add: fresh_world_def)
  have g: "random_random test_env (n_random fresh_world) < 95 / 100"
    "random_random test_env (Suc (n_random fresh_world)) < 95 / 100"
    by (simp_all add: test_env_simps)
  have p: "payments fresh_world = []" "n_clock fresh_world = 0"
    by (simp_all add: fresh_world_def)
  from a up ok g f
  have "map authorized_at (drop (length (payments fresh_world))
            (payments (snd (process_payment test_env ord1_request fresh_world))))
          = [Some (utcnow test_env (n_clock fresh_world + 5))] \<and>
        map captured_at (drop (length (payments fresh_world))
            (payments (snd (process_payment test_env ord1_request fresh_world))))
          = [Some (utcnow test_env (n_clock fresh_world + 5))] \<and>
        map refunded_at (drop (length (payments fresh_world))
            (payments (snd (process_payment test_env ord1_request fresh_world))))
          = [None]"
    by blast
  then show ?thesis
    using up ok g s r by (simp add: p test_env_simps)
qed



end
